theory Spec2Isabelle
  imports Complex_Main "HOL-Library.Word"
begin

section \<open>Values shared by the pipeline\<close>

text \<open>
  The scoring pipeline lives in \<^verbatim>\<open>backend/app/ml/models.py\<close>. A Python float is read as a
  real number; a \<^verbatim>\<open>uint8\<close> sample is an 8-bit word; a path is a string. Every exception
  of the source is a value of type \<open>error\<close> carrying the text that \<^verbatim>\<open>str(e)\<close> returns.
\<close>

type_synonym path = string

datatype error =
    FileNotFoundError string
  | ValueError string
  | ZeroDivisionError string
  | OverflowError string
  | OSError string
  | LibraryError string

fun str_of_error :: "error \<Rightarrow> string" where
  "str_of_error (FileNotFoundError m) = m"
| "str_of_error (ValueError m) = m"
| "str_of_error (ZeroDivisionError m) = m"
| "str_of_error (OverflowError m) = m"
| "str_of_error (OSError m) = m"
| "str_of_error (LibraryError m) = m"

text \<open>\<^verbatim>\<open>str(n)\<close> of a non-negative integer, as the f-strings of the source print it.\<close>

fun str_of_nat :: "nat \<Rightarrow> string" where
  "str_of_nat n =
     (if n < 10 then [char_of (48 + n)]
      else str_of_nat (n div 10) @ [char_of (48 + n mod 10)])"

declare str_of_nat.simps [simp del]

text \<open>\<^verbatim>\<open>os.path.basename\<close>: what follows the last slash.\<close>

definition basename :: "path \<Rightarrow> string" where
  "basename p = rev (takeWhile (\<lambda>c. c \<noteq> CHR ''/'') (rev p))"

text \<open>The values a metadata dictionary holds.\<close>

datatype pyval =
    PyFloat real
  | PyInt int
  | PyStr string
  | PyStrList "string list"
  | PyList "pyval list"
  | PyObject string

subsection \<open>NumPy reductions\<close>

text \<open>
  \<^verbatim>\<open>np.mean\<close>, \<^verbatim>\<open>np.var\<close> (population variance, \<^verbatim>\<open>ddof=0\<close>) and \<^verbatim>\<open>np.std\<close> over the
  flattened array. On an empty array NumPy returns NaN; every call site of the pipeline
  that the theorems below reach passes a non-empty array.
\<close>

definition np_mean :: "real list \<Rightarrow> real" where
  "np_mean xs = sum_list xs / real (length xs)"

definition np_var :: "real list \<Rightarrow> real" where
  "np_var xs = np_mean (map (\<lambda>x. (x - np_mean xs)\<^sup>2) xs)"

definition np_std :: "real list \<Rightarrow> real" where
  "np_std xs = sqrt (np_var xs)"

subsection \<open>Two-dimensional arrays\<close>

text \<open>
  A two-dimensional \<^verbatim>\<open>ndarray\<close> is its shape and its entries. \<open>flatten\<close> lists the entries
  row by row, \<open>slice2\<close> is \<^verbatim>\<open>a[r0:r1, c0:c1]\<close> for non-negative bounds (NumPy clips the
  bounds to the shape, and an inverted range is empty).
\<close>

record 'a ndarray =
  nrows :: nat
  ncols :: nat
  entry :: "nat \<Rightarrow> nat \<Rightarrow> 'a"

definition flatten :: "'a ndarray \<Rightarrow> 'a list" where
  "flatten a = concat (map (\<lambda>i. map (\<lambda>j. entry a i j) [0..<ncols a]) [0..<nrows a])"

definition map_ndarray :: "('a \<Rightarrow> 'b) \<Rightarrow> 'a ndarray \<Rightarrow> 'b ndarray" where
  "map_ndarray f a = \<lparr>nrows = nrows a, ncols = ncols a, entry = (\<lambda>i j. f (entry a i j))\<rparr>"

definition slice2 :: "'a ndarray \<Rightarrow> nat \<Rightarrow> nat \<Rightarrow> nat \<Rightarrow> nat \<Rightarrow> 'a ndarray" where
  "slice2 a r0 r1 c0 c1 =
     \<lparr>nrows = min r1 (nrows a) - min r0 (nrows a),
      ncols = min c1 (ncols a) - min c0 (ncols a),
      entry = (\<lambda>i j. entry a (r0 + i) (c0 + j))\<rparr>"

text \<open>An array all of whose entries are the same value.\<close>

definition uniform :: "'a ndarray \<Rightarrow> 'a \<Rightarrow> bool" where
  "uniform a c = (\<forall>i < nrows a. \<forall>j < ncols a. entry a i j = c)"

definition array_size :: "'a ndarray \<Rightarrow> nat" where
  "array_size a = nrows a * ncols a"

type_synonym pixel = "8 word \<times> 8 word \<times> 8 word"
type_synonym image = "pixel ndarray"
type_synonym gray_image = "8 word ndarray"

subsection \<open>Floats that may be infinite\<close>

text \<open>
  \<^verbatim>\<open>cap.get(cv2.CAP_PROP_FPS)\<close> is a C double: it may be infinite or NaN, and Python's
  \<^verbatim>\<open>int()\<close> raises on both.
\<close>

datatype pyfloat = Finite real | PosInf | NegInf | NaN

fun py_truediv :: "pyfloat \<Rightarrow> int \<Rightarrow> error + pyfloat" where
  "py_truediv x d =
     (if d = 0 then Inl (ZeroDivisionError ''float division by zero'')
      else case x of
        Finite r \<Rightarrow> Inr (Finite (r / real_of_int d))
      | PosInf \<Rightarrow> Inr (if 0 < d then PosInf else NegInf)
      | NegInf \<Rightarrow> Inr (if 0 < d then NegInf else PosInf)
      | NaN \<Rightarrow> Inr NaN)"

fun py_int :: "pyfloat \<Rightarrow> error + int" where
  "py_int (Finite r) = Inr (if 0 \<le> r then \<lfloor>r\<rfloor> else \<lceil>r\<rceil>)"
| "py_int PosInf = Inl (OverflowError ''cannot convert float infinity to integer'')"
| "py_int NegInf = Inl (OverflowError ''cannot convert float infinity to integer'')"
| "py_int NaN = Inl (ValueError ''cannot convert float NaN to integer'')"

section \<open>External capabilities\<close>

text \<open>
  Everything the pipeline asks of its collaborators, as the source calls them. A call that
  can raise returns \<open>error + 'a\<close> (or \<open>error option\<close> when it returns nothing); the pipeline
  is defined for every such environment.
  \<^item> \<open>path_exists\<close>, \<open>file_size_of\<close>, \<open>os_remove\<close>: \<^verbatim>\<open>os.path.exists\<close>, the size of an
    existing file, \<^verbatim>\<open>os.remove\<close>.
  \<^item> \<open>model_loaded\<close>: \<^verbatim>\<open>self.model\<close> and \<^verbatim>\<open>self.processor\<close> are set (the constructor sets
    both or neither); \<open>predict_top10\<close>: opening the image, the processor, the forward
    pass, the softmax and \<^verbatim>\<open>torch.topk(k=10)\<close>, which raises or returns the ten largest
    probabilities in descending order.
  \<^item> \<open>imread\<close>: \<^verbatim>\<open>cv2.imread\<close>, which returns \<^verbatim>\<open>None\<close> for an unreadable file;
    \<open>bgr2gray\<close>, \<open>bgr2hsv\<close>, \<open>rgb2gray\<close>: the per-pixel colour conversions of
    \<^verbatim>\<open>cv2.cvtColor\<close>; \<open>canny\<close>: \<^verbatim>\<open>cv2.Canny(gray, 50, 150)\<close>, an array of \<^verbatim>\<open>uint8\<close>;
    \<open>video_capture_of\<close>: \<^verbatim>\<open>cv2.VideoCapture\<close>.
  \<^item> \<open>load_image_file\<close>, \<open>face_locations\<close>: the two calls of \<^verbatim>\<open>face_recognition\<close>; a
    location is \<open>(top, right, bottom, left)\<close>.
  \<^item> \<open>list_of_set\<close>: \<^verbatim>\<open>list(set(xs))\<close> in the running interpreter.
  \<^item> \<open>librosa_load\<close>, \<open>mfcc\<close>, \<open>spectral_centroid\<close>, \<open>spectral_rolloff\<close>: librosa at
    16 kHz; \<open>hilbert_phase_unwrapped\<close>: \<^verbatim>\<open>np.unwrap(np.angle(signal.hilbert(audio)))\<close>.
  \<^item> \<open>extract_faces\<close>, \<open>temporal_analysis_of\<close>, \<open>extract_spectrogram\<close>: the helper methods
    of \<^verbatim>\<open>ImageProcessor\<close>, \<^verbatim>\<open>VideoProcessor\<close> and \<^verbatim>\<open>AudioProcessor\<close> whose results only
    fill metadata; each catches every exception itself and returns a value.
  \<^item> \<open>metrics_inc\<close>: the Prometheus counter \<^verbatim>\<open>MODEL_PREDICTIONS.labels(...).inc()\<close>;
    \<open>uuid4\<close>: \<^verbatim>\<open>str(uuid.uuid4())\<close>.
\<close>

type_synonym face_location = "nat \<times> nat \<times> nat \<times> nat"

record video_capture =
  isOpened :: bool
  cap_fps :: pyfloat
  cap_frames :: "image list"

record env =
  path_exists :: "path \<Rightarrow> bool"
  file_size_of :: "path \<Rightarrow> nat"
  os_remove :: "path \<Rightarrow> error option"
  model_loaded :: bool
  predict_top10 :: "path \<Rightarrow> error + real list"
  imread :: "path \<Rightarrow> image option"
  bgr2gray :: "pixel \<Rightarrow> 8 word"
  bgr2hsv :: "pixel \<Rightarrow> pixel"
  rgb2gray :: "pixel \<Rightarrow> 8 word"
  canny :: "gray_image \<Rightarrow> error + gray_image"
  load_image_file :: "path \<Rightarrow> error + image"
  face_locations :: "image \<Rightarrow> error + face_location list"
  video_capture_of :: "path \<Rightarrow> video_capture"
  list_of_set :: "string list \<Rightarrow> string list"
  librosa_load :: "path \<Rightarrow> error + real list"
  mfcc :: "real list \<Rightarrow> error + real list list"
  spectral_centroid :: "real list \<Rightarrow> error + real list"
  spectral_rolloff :: "real list \<Rightarrow> error + real list"
  hilbert_phase_unwrapped :: "real list \<Rightarrow> error + real list"
  extract_faces :: "path \<Rightarrow> pyval list"
  temporal_analysis_of :: "path \<Rightarrow> pyval"
  extract_spectrogram :: "path \<Rightarrow> pyval"
  metrics_inc :: "string \<Rightarrow> string \<Rightarrow> string \<Rightarrow> error option"
  uuid4 :: string

definition bindE :: "error + 'a \<Rightarrow> ('a \<Rightarrow> error + 'b) \<Rightarrow> error + 'b" where
  "bindE m f = (case m of Inl e \<Rightarrow> Inl e | Inr x \<Rightarrow> f x)"

section \<open>Image scoring\<close>

text \<open>The dictionary every model-level analysis returns.\<close>

record result =
  is_fake :: bool
  confidence :: real
  fake_probability :: real
  real_probability :: real
  visual_cues :: "string list"
  model_used :: string

subsection \<open>OpenCV operations used by the fallback path\<close>

text \<open>
  \<^verbatim>\<open>cv2.cvtColor\<close> converts pixel by pixel and rejects an empty array.
\<close>

definition cvtColor :: "(pixel \<Rightarrow> 'b) \<Rightarrow> image \<Rightarrow> error + 'b ndarray" where
  "cvtColor conv src =
     (if array_size src = 0 then Inl (LibraryError ''(-215:Assertion failed) !_src.empty()'')
      else Inr (map_ndarray conv src))"

text \<open>
  \<^verbatim>\<open>cv2.dct\<close> as OpenCV documents it: the orthonormal DCT-II,
  \<open>Y = C\<^sup>M X (C\<^sup>N)\<^sup>T\<close> with \<open>C\<^sup>N j k = sqrt (\<alpha> j / N) cos (\<pi> (2k+1) j / 2N)\<close>, \<open>\<alpha> 0 = 1\<close> and
  \<open>\<alpha> j = 2\<close> otherwise, for a non-empty array of any height and width. (The documentation
  speaks of even sizes only; the optimised backend that the stock builds dispatch to
  transforms odd sizes as well, and the model follows it.)
\<close>

definition dct_coeff :: "nat \<Rightarrow> nat \<Rightarrow> nat \<Rightarrow> real" where
  "dct_coeff N j k =
     sqrt ((if j = 0 then 1 else 2) / real N) * cos (pi * real (2 * k + 1) * real j / real (2 * N))"

definition dct2 :: "real ndarray \<Rightarrow> real ndarray" where
  "dct2 X =
     \<lparr>nrows = nrows X, ncols = ncols X,
      entry = (\<lambda>u v. \<Sum>i\<leftarrow>[0..<nrows X]. \<Sum>j\<leftarrow>[0..<ncols X].
                 dct_coeff (nrows X) u i * entry X i j * dct_coeff (ncols X) v j)\<rparr>"

definition cv_dct :: "real ndarray \<Rightarrow> error + real ndarray" where
  "cv_dct X =
     (if array_size X = 0 then Inl (LibraryError ''(-215:Assertion failed) empty input'')
      else Inr (dct2 X))"

text \<open>
  \<^verbatim>\<open>cv2.filter2D(gray, -1, np.ones((3,3), np.float32) / 9)\<close>: the mean of the 3x3
  neighbourhood under the default border \<^verbatim>\<open>BORDER_REFLECT_101\<close>, rounded to the nearest
  \<^verbatim>\<open>uint8\<close> (a ninth of an integer is never halfway between two integers).
\<close>

definition reflect101 :: "nat \<Rightarrow> int \<Rightarrow> nat" where
  "reflect101 n i =
     (if n = 1 then 0
      else if i < 0 then nat (- i)
      else if int n \<le> i then nat (2 * int n - 2 - i)
      else nat i)"

definition filter2D_box3 :: "gray_image \<Rightarrow> gray_image" where
  "filter2D_box3 src =
     \<lparr>nrows = nrows src, ncols = ncols src,
      entry = (\<lambda>i j.
        let s = (\<Sum>di\<leftarrow>[-1, 0, 1]. \<Sum>dj\<leftarrow>[-1, 0, 1].
                   unat (entry src (reflect101 (nrows src) (int i + di))
                                   (reflect101 (ncols src) (int j + dj))))
        in word_of_nat ((2 * s + 9) div 18))\<rparr>"

definition absdiff :: "gray_image \<Rightarrow> gray_image \<Rightarrow> gray_image" where
  "absdiff a b =
     \<lparr>nrows = nrows a, ncols = ncols a,
      entry = (\<lambda>i j. if entry a i j \<le> entry b i j then entry b i j - entry a i j
                      else entry a i j - entry b i j)\<rparr>"

definition as_real :: "gray_image \<Rightarrow> real ndarray" where
  "as_real g = map_ndarray (\<lambda>w. real (unat w)) g"

definition np_sum_abs :: "real ndarray \<Rightarrow> real" where
  "np_sum_abs a = (\<Sum>x\<leftarrow>flatten a. \<bar>x\<bar>)"

subsection \<open>The fallback path\<close>

definition detect_compression_artifacts :: "gray_image \<Rightarrow> error + real" where
  "detect_compression_artifacts gray_image =
     bindE (cv_dct (as_real gray_image)) (\<lambda>dct.
       let high_freq = np_sum_abs (slice2 dct 8 (nrows dct) 8 (ncols dct));
           total_energy = np_sum_abs dct
       in Inr (min (high_freq / (total_energy + 1 / 10 ^ 6)) 1))"

definition analyze_noise_patterns :: "gray_image \<Rightarrow> real" where
  "analyze_noise_patterns gray_image =
     (let smoothed = filter2D_box3 gray_image;
          noise = absdiff gray_image smoothed;
          noise_var = np_var (flatten (as_real noise))
      in min (noise_var / 1000) 1)"

definition analyze_color_consistency :: "image \<Rightarrow> real" where
  "analyze_color_consistency hsv_image =
     (let saturation = map_ndarray (\<lambda>(h, s, v). s) hsv_image;
          val = map_ndarray (\<lambda>(h, s, v). v) hsv_image;
          sat_std = np_std (flatten (as_real saturation));
          val_std = np_std (flatten (as_real val));
          consistency = 1 / (1 + sat_std / 50 + val_std / 50)
      in min consistency 1)"

definition fallback_cues :: "real \<Rightarrow> real \<Rightarrow> real \<Rightarrow> string list" where
  "fallback_cues artifacts_score noise_score color_consistency =
     (let visual_cues =
            (if artifacts_score > 0.6 then [''Compression artifacts detected''] else []) @
            (if noise_score > 0.6 then [''Inconsistent noise patterns''] else []) @
            (if color_consistency < 0.4 then [''Color inconsistencies detected''] else [])
      in if visual_cues = [] then [''No obvious artifacts detected''] else visual_cues)"

definition fallback_analysis_body :: "env \<Rightarrow> path \<Rightarrow> error + result" where
  "fallback_analysis_body env image_path =
     (case imread env image_path of
        None \<Rightarrow> Inl (ValueError ''Could not load image'')
      | Some img \<Rightarrow>
          bindE (cvtColor (bgr2gray env) img) (\<lambda>gray.
          bindE (cvtColor (bgr2hsv env) img) (\<lambda>hsv.
          bindE (detect_compression_artifacts gray) (\<lambda>artifacts_score.
            let noise_score = analyze_noise_patterns gray;
                color_consistency = analyze_color_consistency hsv;
                fake_score = (artifacts_score + noise_score + (1 - color_consistency)) / 3;
                confidence = min (fake_score * 0.8 + 0.2) 0.95
            in Inr \<lparr>is_fake = fake_score > 0.5,
                     confidence = confidence,
                     fake_probability = fake_score,
                     real_probability = 1 - fake_score,
                     visual_cues = fallback_cues artifacts_score noise_score color_consistency,
                     model_used = ''Traditional CV Analysis''\<rparr>))))"

definition error_fallback :: result where
  "error_fallback =
     \<lparr>is_fake = False, confidence = 0.5, fake_probability = 0.5, real_probability = 0.5,
      visual_cues = [''Analysis failed''], model_used = ''Error Fallback''\<rparr>"

definition fallback_analysis :: "env \<Rightarrow> path \<Rightarrow> result" where
  "fallback_analysis env image_path =
     (case fallback_analysis_body env image_path of
        Inl e \<Rightarrow> error_fallback
      | Inr r \<Rightarrow> r)"

subsection \<open>Face cues\<close>

definition edge_density :: "gray_image \<Rightarrow> real" where
  "edge_density edges = real (\<Sum>w\<leftarrow>flatten edges. unat w) / real (nrows edges * ncols edges)"

definition check_face_artifacts :: "env \<Rightarrow> image \<Rightarrow> error + bool" where
  "check_face_artifacts env face_image =
     bindE (cvtColor (rgb2gray env) face_image) (\<lambda>gray.
     bindE (canny env gray) (\<lambda>edges.
       Inr (edge_density edges > 1000)))"

definition face_region :: "image \<Rightarrow> face_location \<Rightarrow> image" where
  "face_region img loc = (case loc of (top', right, bottom, left) \<Rightarrow> slice2 img top' bottom left right)"

text \<open>
  The per-face cue as the specification words it: "potential artifacts" when the check
  finds the edge density above the threshold, "no obvious artifacts" otherwise.
\<close>

definition face_cue :: "env \<Rightarrow> image \<Rightarrow> nat \<Rightarrow> face_location \<Rightarrow> string" where
  "face_cue env img i loc =
     ''Face '' @ str_of_nat i @
       (if check_face_artifacts env (face_region img loc) = Inr True
        then '': Potential artifacts detected'' else '': No obvious artifacts'')"

text \<open>
  The loop over the detected faces. The cue list is the loop's state; when a face raises,
  the cues appended so far stay and the error goes to the handler.
\<close>

fun analyze_faces ::
  "env \<Rightarrow> image \<Rightarrow> nat \<Rightarrow> face_location list \<Rightarrow> string list \<Rightarrow> string list \<times> error option"
where
  "analyze_faces env img i [] cues = (cues, None)"
| "analyze_faces env img i ((top', right, bottom, left) # rest) cues =
     (let face_image = slice2 img top' bottom left right
      in case check_face_artifacts env face_image of
           Inl e \<Rightarrow> (cues, Some e)
         | Inr True \<Rightarrow>
             analyze_faces env img (i + 1) rest
               (cues @ [''Face '' @ str_of_nat (i + 1) @ '': Potential artifacts detected''])
         | Inr False \<Rightarrow>
             analyze_faces env img (i + 1) rest
               (cues @ [''Face '' @ str_of_nat (i + 1) @ '': No obvious artifacts'']))"

definition extract_visual_cues :: "env \<Rightarrow> path \<Rightarrow> string list" where
  "extract_visual_cues env image_path =
     (case load_image_file env image_path of
        Inl e \<Rightarrow> [''Face analysis failed'']
      | Inr img \<Rightarrow>
          (case face_locations env img of
             Inl e \<Rightarrow> [''Face analysis failed'']
           | Inr locations \<Rightarrow>
               if length locations > 0 then
                 (case analyze_faces env img 0 locations
                         [''Detected '' @ str_of_nat (length locations) @ '' face(s)''] of
                    (cues, None) \<Rightarrow> cues
                  | (cues, Some e) \<Rightarrow> cues @ [''Face analysis failed''])
               else [''No faces detected'']))"

subsection \<open>The classifier-backed path\<close>

text \<open>
  The heuristic score over the ten largest class probabilities, clamped to [0.1, 0.9].
\<close>

definition calculate_fake_score_from_predictions :: "real list \<Rightarrow> real" where
  "calculate_fake_score_from_predictions probs =
     (let entropy = - (\<Sum>p\<leftarrow>probs. p * ln (p + 1 / 10 ^ 10));
          entropy_score = 1 - min (entropy / 2) 1;
          top_pred_dominance = (if length probs > 0 then hd probs else 0.5);
          dominance_score = top_pred_dominance;
          uniformity_score = 1 - np_std probs;
          fake_score = entropy_score * 0.4 + dominance_score * 0.4 + uniformity_score * 0.2
      in min (max fake_score 0.1) 0.9)"

definition huggingface_analysis :: "env \<Rightarrow> path \<Rightarrow> result" where
  "huggingface_analysis env image_path =
     (case predict_top10 env image_path of
        Inl e \<Rightarrow> fallback_analysis env image_path
      | Inr top_probs \<Rightarrow>
          let fake_score = calculate_fake_score_from_predictions top_probs;
              visual_cues = extract_visual_cues env image_path
          in \<lparr>is_fake = fake_score > 0.5,
              confidence = min (fake_score * 0.7 + 0.3) 0.9,
              fake_probability = fake_score,
              real_probability = 1 - fake_score,
              visual_cues = visual_cues,
              model_used = ''Hugging Face ResNet-50 + CV Analysis''\<rparr>)"

text \<open>
  \<^verbatim>\<open>RealImageModel.analyze_image\<close>. Both branches catch every exception themselves, so
  the outer handler of the source is never entered.
\<close>

definition image_model_analyze_image :: "env \<Rightarrow> path \<Rightarrow> result" where
  "image_model_analyze_image env image_path =
     (if model_loaded env then huggingface_analysis env image_path
      else fallback_analysis env image_path)"

section \<open>Video: frame sampling and temporal consistency\<close>

definition frame_path :: "nat \<Rightarrow> path" where
  "frame_path frame_count = ''/tmp/video_frames/frame_'' @ str_of_nat frame_count @ ''.jpg''"

text \<open>
  The \<^verbatim>\<open>while True\<close> loop of \<^verbatim>\<open>_extract_frames\<close>: the state is the list of frame paths
  written so far and the frame counter; \<^verbatim>\<open>frame_count % frame_interval\<close> raises when the
  interval is zero.
\<close>

fun read_loop :: "int \<Rightarrow> image list \<Rightarrow> path list \<Rightarrow> nat \<Rightarrow> error + path list" where
  "read_loop frame_interval [] frames frame_count = Inr frames"
| "read_loop frame_interval (frame # rest) frames frame_count =
     (if frame_interval = 0 then Inl (ZeroDivisionError ''integer modulo by zero'')
      else
        let frames' = (if int frame_count mod frame_interval = 0
                       then frames @ [frame_path frame_count] else frames)
        in if 30 \<le> length frames' then Inr frames'
           else read_loop frame_interval rest frames' (frame_count + 1))"

definition extract_frames_body :: "video_capture \<Rightarrow> int \<Rightarrow> error + path list" where
  "extract_frames_body cap frame_rate =
     (if \<not> isOpened cap then Inr []
      else case py_truediv (cap_fps cap) frame_rate of
        Inl e \<Rightarrow> Inl e
      | Inr q \<Rightarrow>
          (case py_int q of
             Inl e \<Rightarrow> Inl e
           | Inr frame_interval \<Rightarrow> read_loop frame_interval (cap_frames cap) [] 0))"

definition extract_frames :: "video_capture \<Rightarrow> int \<Rightarrow> path list" where
  "extract_frames cap frame_rate =
     (case extract_frames_body cap frame_rate of Inl e \<Rightarrow> [] | Inr frames \<Rightarrow> frames)"

definition analyze_temporal_consistency :: "real list \<Rightarrow> real" where
  "analyze_temporal_consistency fake_probs =
     (if length fake_probs < 2 then 1
      else
        let variance = np_var fake_probs;
            consistency = 1 / (1 + variance * 10)
        in min consistency 1)"

text \<open>The specification's wording of the same score: the quotient clamped to [0,1].\<close>

definition clamp01 :: "real \<Rightarrow> real" where
  "clamp01 x = max 0 (min 1 x)"

definition spec_temporal_consistency :: "real list \<Rightarrow> real" where
  "spec_temporal_consistency fs =
     (if length fs < 2 then 1 else clamp01 (1 / (1 + 10 * np_var fs)))"

subsection \<open>Video scoring\<close>

record video_result = result +
  frames_analyzed :: nat
  temporal_consistency :: real

definition fallback_video_analysis :: video_result where
  "fallback_video_analysis =
     \<lparr>is_fake = False, confidence = 0.5, fake_probability = 0.5, real_probability = 0.5,
      visual_cues = [''Video analysis failed''], model_used = ''Fallback Analysis'',
      frames_analyzed = 0, temporal_consistency = 0.5\<rparr>"

text \<open>
  The loop over the sampled frames: each frame file is scored by the image model and then
  removed; \<^verbatim>\<open>os.remove\<close> may raise.
\<close>

fun analyze_frames :: "env \<Rightarrow> path list \<Rightarrow> result list \<Rightarrow> error + result list" where
  "analyze_frames env [] frame_results = Inr frame_results"
| "analyze_frames env (frame_file # rest) frame_results =
     (let result = (if model_loaded env then huggingface_analysis env frame_file
                    else fallback_analysis env frame_file)
      in case os_remove env frame_file of
           Some e \<Rightarrow> Inl e
         | None \<Rightarrow> analyze_frames env rest (frame_results @ [result]))"

text \<open>
  \<^verbatim>\<open>list(set(all_cues))[:5]\<close>. The order in which a Python set of strings is iterated
  depends on the strings' hashes, which are salted per interpreter process; \<open>order\<close> is
  that enumeration. \<open>set_enumeration\<close> is all that Python promises of it.
\<close>

definition combine_visual_cues ::
  "(string list \<Rightarrow> string list) \<Rightarrow> string list list \<Rightarrow> string list" where
  "combine_visual_cues order frame_cues =
     (let all_cues = concat frame_cues;
          unique_cues = take 5 (order all_cues)
      in unique_cues)"

definition set_enumeration :: "(string list \<Rightarrow> string list) \<Rightarrow> bool" where
  "set_enumeration order = (\<forall>xs. distinct (order xs) \<and> set (order xs) = set xs)"

definition video_model_analyze_video_body :: "env \<Rightarrow> path \<Rightarrow> error + video_result" where
  "video_model_analyze_video_body env video_path =
     (let frames = extract_frames (video_capture_of env video_path) 1
      in if frames = [] then Inr fallback_video_analysis
         else
           bindE (analyze_frames env frames []) (\<lambda>frame_results.
             let fake_probs = map fake_probability frame_results;
                 confidences = map confidence frame_results;
                 temporal_score = analyze_temporal_consistency fake_probs;
                 avg_fake_prob = np_mean fake_probs;
                 avg_confidence = np_mean confidences;
                 final_confidence = avg_confidence * (0.7 + 0.3 * temporal_score);
                 unique_cues = combine_visual_cues (list_of_set env) (map visual_cues frame_results)
             in Inr \<lparr>is_fake = avg_fake_prob > 0.5,
                      confidence = final_confidence,
                      fake_probability = avg_fake_prob,
                      real_probability = 1 - avg_fake_prob,
                      visual_cues = unique_cues,
                      model_used = ''Temporal CV Analysis'',
                      frames_analyzed = length frames,
                      temporal_consistency = temporal_score\<rparr>))"

definition video_model_analyze_video :: "env \<Rightarrow> path \<Rightarrow> video_result" where
  "video_model_analyze_video env video_path =
     (case video_model_analyze_video_body env video_path of
        Inl e \<Rightarrow> fallback_video_analysis
      | Inr r \<Rightarrow> r)"

section \<open>Audio scoring\<close>

record audio_result = result +
  duration :: real
  sample_rate :: nat

definition fallback_audio_analysis :: audio_result where
  "fallback_audio_analysis =
     \<lparr>is_fake = False, confidence = 0.5, fake_probability = 0.5, real_probability = 0.5,
      visual_cues = [''Audio analysis failed''], model_used = ''Fallback Analysis'',
      duration = 0, sample_rate = 0\<rparr>"

definition detect_audio_artifacts :: "real list list \<Rightarrow> real" where
  "detect_audio_artifacts mfcc_rows =
     (let mfcc_var = map np_var mfcc_rows;
          artifact_score = np_mean mfcc_var / 1000
      in min artifact_score 1)"

definition analyze_spectral_features :: "real list \<Rightarrow> real list \<Rightarrow> real" where
  "analyze_spectral_features centroid rolloff =
     (let centroid_std = np_std centroid;
          rolloff_std = np_std rolloff;
          inconsistency = (centroid_std + rolloff_std) / 1000
      in min inconsistency 1)"

definition np_diff :: "real list \<Rightarrow> real list" where
  "np_diff xs = map (\<lambda>(a, b). b - a) (zip xs (tl xs))"

text \<open>
  \<open>hilbert_phase_unwrapped\<close> stands for \<^verbatim>\<open>np.unwrap(np.angle(signal.hilbert(audio)))\<close>.
  For a clip of fewer than two samples \<^verbatim>\<open>phase_diff\<close> is empty and NumPy's quotient is
  NaN, which no real number models; the score below is meaningful for two samples or more.
\<close>

definition analyze_phase_consistency :: "env \<Rightarrow> real list \<Rightarrow> error + real" where
  "analyze_phase_consistency env audio =
     bindE (hilbert_phase_unwrapped env audio) (\<lambda>phase_unwrapped.
       let phase_diff = np_diff phase_unwrapped;
           discontinuities = length (filter (\<lambda>d. \<bar>d\<bar> > pi / 2) phase_diff);
           discontinuity_score = real discontinuities / real (length phase_diff)
       in Inr (min (discontinuity_score * 10) 1))"

definition audio_cues :: "real \<Rightarrow> real \<Rightarrow> real \<Rightarrow> string list" where
  "audio_cues artifacts_score spectral_score phase_score =
     (let cues =
            (if artifacts_score > 0.6 then [''Audio compression artifacts detected''] else []) @
            (if spectral_score > 0.6 then [''Spectral inconsistencies found''] else []) @
            (if phase_score > 0.6 then [''Phase inconsistencies detected''] else [])
      in if cues = [] then [''No obvious audio artifacts detected''] else cues)"

definition audio_model_analyze_audio_body :: "env \<Rightarrow> path \<Rightarrow> error + audio_result" where
  "audio_model_analyze_audio_body env audio_path =
     bindE (librosa_load env audio_path) (\<lambda>audio.
     bindE (mfcc env audio) (\<lambda>mfcc_rows.
     bindE (spectral_centroid env audio) (\<lambda>centroid.
     bindE (spectral_rolloff env audio) (\<lambda>rolloff.
       let artifacts_score = detect_audio_artifacts mfcc_rows;
           spectral_score = analyze_spectral_features centroid rolloff
       in bindE (analyze_phase_consistency env audio) (\<lambda>phase_score.
            let fake_score = (artifacts_score + spectral_score + phase_score) / 3;
                confidence = min (fake_score * 0.8 + 0.2) 0.95
            in Inr \<lparr>is_fake = fake_score > 0.5,
                     confidence = confidence,
                     fake_probability = fake_score,
                     real_probability = 1 - fake_score,
                     visual_cues = audio_cues artifacts_score spectral_score phase_score,
                     model_used = ''Audio Spectral Analysis'',
                     duration = real (length audio) / 16000,
                     sample_rate = 16000\<rparr>)))))"

definition audio_model_analyze_audio :: "env \<Rightarrow> path \<Rightarrow> audio_result" where
  "audio_model_analyze_audio env audio_path =
     (case audio_model_analyze_audio_body env audio_path of
        Inl e \<Rightarrow> fallback_audio_analysis
      | Inr r \<Rightarrow> r)"

section \<open>The model manager\<close>

text \<open>
  \<^verbatim>\<open>AnalysisResult\<close> of \<^verbatim>\<open>app/core/database.py\<close>, without its three clock readings
  (\<^verbatim>\<open>upload_time\<close>, \<^verbatim>\<open>analysis_time\<close>, \<^verbatim>\<open>processing_time\<close>) and the two fields the
  pipeline leaves at their defaults (\<^verbatim>\<open>status\<close>, \<^verbatim>\<open>error_message\<close>). The metadata
  dictionary is the list of its items in insertion order; \<open>lookup\<close> is
  \<^verbatim>\<open>metadata.get(key)\<close>. \<open>getsize\<close> is \<^verbatim>\<open>os.path.getsize\<close>, which raises for a missing
  file.
\<close>

record analysis_result =
  ar_file_id :: string
  ar_file_name :: string
  ar_file_type :: string
  ar_file_size :: nat
  ar_is_fake :: bool
  ar_confidence :: real
  ar_model_used :: string
  ar_metadata :: "(string \<times> pyval) list"

definition lookup :: "analysis_result \<Rightarrow> string \<Rightarrow> pyval option" where
  "lookup r key = map_of (ar_metadata r) key"

definition getsize :: "env \<Rightarrow> path \<Rightarrow> error + nat" where
  "getsize env p =
     (if path_exists env p then Inr (file_size_of env p)
      else Inl (FileNotFoundError (''[Errno 2] No such file or directory: '' @ p)))"

text \<open>\<^verbatim>\<open>ModelMetrics.record_prediction\<close> of \<^verbatim>\<open>app/core/monitoring.py\<close>.\<close>

definition record_prediction :: "env \<Rightarrow> string \<Rightarrow> string \<Rightarrow> real \<Rightarrow> error + unit" where
  "record_prediction env model_type prediction conf =
     (let confidence_level =
            (if conf > 0.8 then ''high'' else if conf > 0.6 then ''medium'' else ''low'')
      in case metrics_inc env model_type prediction confidence_level of
           Some e \<Rightarrow> Inl e
         | None \<Rightarrow> Inr ())"

text \<open>
  The part the three public operations share once the model-level result is there: the
  metric, the defaults of the optional arguments, and the result record.
\<close>

definition build_result ::
  "env \<Rightarrow> string \<Rightarrow> path \<Rightarrow> string option \<Rightarrow> string option \<Rightarrow> nat option \<Rightarrow>
   ('a result_scheme) \<Rightarrow> (string \<times> pyval) list \<Rightarrow> error + analysis_result" where
  "build_result env file_type file_path file_id file_name file_size result extra =
     bindE (record_prediction env file_type (if is_fake result then ''fake'' else ''real'')
              (confidence result)) (\<lambda>_.
     bindE (case file_size of None \<Rightarrow> getsize env file_path | Some n \<Rightarrow> Inr n) (\<lambda>file_size.
       Inr \<lparr>ar_file_id = (case file_id of None \<Rightarrow> uuid4 env | Some i \<Rightarrow> i),
            ar_file_name = (case file_name of None \<Rightarrow> basename file_path | Some n \<Rightarrow> n),
            ar_file_type = file_type,
            ar_file_size = file_size,
            ar_is_fake = is_fake result,
            ar_confidence = confidence result,
            ar_model_used = model_used result,
            ar_metadata =
              [(''fake_probability'', PyFloat (fake_probability result)),
               (''real_probability'', PyFloat (real_probability result)),
               (''visual_cues'', PyStrList (visual_cues result))] @ extra\<rparr>))"

text \<open>The \<^verbatim>\<open>except Exception as e\<close> block of the three public operations.\<close>

definition error_result ::
  "env \<Rightarrow> string \<Rightarrow> path \<Rightarrow> string option \<Rightarrow> string option \<Rightarrow> nat option \<Rightarrow> error \<Rightarrow>
   error + analysis_result" where
  "error_result env file_type file_path file_id file_name file_size e =
     bindE (case file_size of
              None \<Rightarrow> (if path_exists env file_path then getsize env file_path else Inr 0)
            | Some n \<Rightarrow> Inr n) (\<lambda>file_size.
       Inr \<lparr>ar_file_id = (case file_id of None \<Rightarrow> uuid4 env | Some i \<Rightarrow> i),
            ar_file_name = (case file_name of None \<Rightarrow> basename file_path | Some n \<Rightarrow> n),
            ar_file_type = file_type,
            ar_file_size = file_size,
            ar_is_fake = False,
            ar_confidence = 0,
            ar_model_used = ''Error'',
            ar_metadata = [(''error'', PyStr (str_of_error e))]\<rparr>)"

definition analyze_image_body ::
  "env \<Rightarrow> path \<Rightarrow> string option \<Rightarrow> string option \<Rightarrow> nat option \<Rightarrow> error + analysis_result" where
  "analyze_image_body env image_path file_id file_name file_size =
     (if \<not> path_exists env image_path
      then Inl (FileNotFoundError (''Image file not found: '' @ image_path))
      else
        let result = image_model_analyze_image env image_path;
            faces = extract_faces env image_path
        in build_result env ''image'' image_path file_id file_name file_size result
             [(''faces_detected'', PyInt (int (length faces))),
              (''face_data'', PyList faces)])"

definition analyze_image ::
  "env \<Rightarrow> path \<Rightarrow> string option \<Rightarrow> string option \<Rightarrow> nat option \<Rightarrow> error + analysis_result" where
  "analyze_image env image_path file_id file_name file_size =
     (case analyze_image_body env image_path file_id file_name file_size of
        Inr r \<Rightarrow> Inr r
      | Inl e \<Rightarrow> error_result env ''image'' image_path file_id file_name file_size e)"

definition analyze_video_body ::
  "env \<Rightarrow> path \<Rightarrow> string option \<Rightarrow> string option \<Rightarrow> nat option \<Rightarrow> error + analysis_result" where
  "analyze_video_body env video_path file_id file_name file_size =
     (if \<not> path_exists env video_path
      then Inl (FileNotFoundError (''Video file not found: '' @ video_path))
      else
        let result = video_model_analyze_video env video_path;
            temporal_analysis = temporal_analysis_of env video_path
        in build_result env ''video'' video_path file_id file_name file_size result
             [(''frames_analyzed'', PyInt (int (frames_analyzed result))),
              (''temporal_consistency'', PyFloat (temporal_consistency result)),
              (''temporal_analysis'', temporal_analysis)])"

definition analyze_video ::
  "env \<Rightarrow> path \<Rightarrow> string option \<Rightarrow> string option \<Rightarrow> nat option \<Rightarrow> error + analysis_result" where
  "analyze_video env video_path file_id file_name file_size =
     (case analyze_video_body env video_path file_id file_name file_size of
        Inr r \<Rightarrow> Inr r
      | Inl e \<Rightarrow> error_result env ''video'' video_path file_id file_name file_size e)"

definition analyze_audio_body ::
  "env \<Rightarrow> path \<Rightarrow> string option \<Rightarrow> string option \<Rightarrow> nat option \<Rightarrow> error + analysis_result" where
  "analyze_audio_body env audio_path file_id file_name file_size =
     (if \<not> path_exists env audio_path
      then Inl (FileNotFoundError (''Audio file not found: '' @ audio_path))
      else
        let result = audio_model_analyze_audio env audio_path;
            spectrogram = extract_spectrogram env audio_path
        in build_result env ''audio'' audio_path file_id file_name file_size result
             [(''duration'', PyFloat (duration result)),
              (''sample_rate'', PyInt (int (sample_rate result))),
              (''spectrogram_features'', spectrogram)])"

definition analyze_audio ::
  "env \<Rightarrow> path \<Rightarrow> string option \<Rightarrow> string option \<Rightarrow> nat option \<Rightarrow> error + analysis_result" where
  "analyze_audio env audio_path file_id file_name file_size =
     (case analyze_audio_body env audio_path file_id file_name file_size of
        Inr r \<Rightarrow> Inr r
      | Inl e \<Rightarrow> error_result env ''audio'' audio_path file_id file_name file_size e)"

section \<open>The specification's invariants\<close>

text \<open>
  What the specification asks of every outcome: the two probabilities are present, lie in
  [0,1] and sum to one, the confidence lies in [0,1], and the verdict is
  \<open>fake_probability > 0.5\<close>. \<open>dict_invariant\<close> is the same for a model-level dictionary.
\<close>

definition dict_invariant :: "'a result_scheme \<Rightarrow> bool" where
  "dict_invariant r =
     (fake_probability r + real_probability r = 1
      \<and> 0 \<le> fake_probability r \<and> fake_probability r \<le> 1
      \<and> 0 \<le> real_probability r \<and> real_probability r \<le> 1
      \<and> 0 \<le> confidence r \<and> confidence r \<le> 1
      \<and> is_fake r = (fake_probability r > 0.5))"

definition score_invariant :: "analysis_result \<Rightarrow> bool" where
  "score_invariant r =
     (case (lookup r ''fake_probability'', lookup r ''real_probability'') of
        (Some (PyFloat f), Some (PyFloat q)) \<Rightarrow>
          f + q = 1 \<and> 0 \<le> f \<and> f \<le> 1 \<and> 0 \<le> q \<and> q \<le> 1
          \<and> 0 \<le> ar_confidence r \<and> ar_confidence r \<le> 1
          \<and> ar_is_fake r = (f > 0.5)
      | _ \<Rightarrow> False)"

text \<open>A model-level dictionary is never tagged "Error"; an outcome tagged so has no scores.\<close>

definition dict_ok :: "'a result_scheme \<Rightarrow> bool" where
  "dict_ok r = (dict_invariant r \<and> model_used r \<noteq> ''Error'')"

definition outcome_ok :: "analysis_result \<Rightarrow> bool" where
  "outcome_ok out =
     (if ar_model_used out = ''Error''
      then \<not> ar_is_fake out \<and> ar_confidence out = 0
           \<and> lookup out ''fake_probability'' = None \<and> lookup out ''real_probability'' = None
      else score_invariant out)"

text \<open>
  The audio scores are real numbers when no reduction runs over an empty array: the clip
  has at least two samples (so \<^verbatim>\<open>phase_diff\<close> is not empty) and the feature matrices have
  at least one frame. Otherwise NumPy yields NaN, which this development does not model.
\<close>

definition audio_scores_defined :: "env \<Rightarrow> path \<Rightarrow> bool" where
  "audio_scores_defined env audio_path =
     (case librosa_load env audio_path of
        Inl e \<Rightarrow> True
      | Inr audio \<Rightarrow>
          (case hilbert_phase_unwrapped env audio of Inl e \<Rightarrow> True | Inr ph \<Rightarrow> 2 \<le> length ph)
          \<and> (case mfcc env audio of Inl e \<Rightarrow> True | Inr rows \<Rightarrow> rows \<noteq> [] \<and> [] \<notin> set rows)
          \<and> (case spectral_centroid env audio of Inl e \<Rightarrow> True | Inr c \<Rightarrow> c \<noteq> [])
          \<and> (case spectral_rolloff env audio of Inl e \<Rightarrow> True | Inr c \<Rightarrow> c \<noteq> []))"

section \<open>Sample environments\<close>

text \<open>
  Concrete collaborators on which the theorems below are exercised: a uniform gray 2x2
  picture in which the face detector reports one face covering it, a two-frame video at
  one frame per second, and a four-sample clip. The colour conversions agree with OpenCV's
  on gray pixels, and Canny finds no edge in a uniform picture. \<open>hash_order_a\<close> and
  \<open>hash_order_b\<close> are two iteration orders a Python set can have, one the reverse of the
  other.
\<close>

definition hash_order_a :: "string list \<Rightarrow> string list" where
  "hash_order_a xs = remdups xs"

definition hash_order_b :: "string list \<Rightarrow> string list" where
  "hash_order_b xs = rev (remdups xs)"

definition gray_2x2 :: image where
  "gray_2x2 = \<lparr>nrows = 2, ncols = 2, entry = (\<lambda>i j. (128, 128, 128))\<rparr>"

definition sample_env :: env where
  "sample_env =
     \<lparr>path_exists = (\<lambda>p. p = ''photo.jpg'' \<or> p = ''clip.mp4'' \<or> p = ''voice.wav''),
      file_size_of = (\<lambda>p. 1024),
      os_remove = (\<lambda>p. None),
      model_loaded = True,
      predict_top10 = (\<lambda>p. Inr [0.91, 0.01, 0.01, 0.01, 0.01, 0.01, 0.01, 0.01, 0.01, 0.01]),
      imread = (\<lambda>p. Some gray_2x2),
      bgr2gray = (\<lambda>(b, g, r). g),
      bgr2hsv = (\<lambda>(b, g, r). (0, 0, g)),
      rgb2gray = (\<lambda>(r, g, b). g),
      canny = (\<lambda>g. Inr (map_ndarray (\<lambda>w. 0) g)),
      load_image_file = (\<lambda>p. Inr gray_2x2),
      face_locations = (\<lambda>img. Inr [(0, 2, 2, 0)]),
      video_capture_of =
        (\<lambda>p. \<lparr>isOpened = True, cap_fps = Finite 1, cap_frames = [gray_2x2, gray_2x2]\<rparr>),
      list_of_set = hash_order_a,
      librosa_load = (\<lambda>p. Inr [0, 1, 0, -1]),
      mfcc = (\<lambda>a. Inr (replicate 13 [0, 0])),
      spectral_centroid = (\<lambda>a. Inr [1000, 1000]),
      spectral_rolloff = (\<lambda>a. Inr [2000, 2000]),
      hilbert_phase_unwrapped = (\<lambda>a. Inr [0, 0, 0, 0]),
      extract_faces = (\<lambda>p. [PyObject ''face'']),
      temporal_analysis_of = (\<lambda>p. PyObject ''temporal''),
      extract_spectrogram = (\<lambda>p. PyObject ''spectrogram''),
      metrics_inc = (\<lambda>model_type prediction level. None),
      uuid4 = ''00000000-0000-4000-8000-000000000000''\<rparr>"

text \<open>The same environment without the classifier, and with five faces in the picture.\<close>

definition no_classifier_env :: env where
  "no_classifier_env = sample_env\<lparr>model_loaded := False\<rparr>"

definition crowd_env :: env where
  "crowd_env =
     sample_env\<lparr>face_locations :=
       (\<lambda>img. Inr [(0, 1, 1, 0), (0, 2, 1, 1), (1, 1, 2, 0), (1, 2, 2, 1), (0, 2, 2, 0)])\<rparr>"



text \<open>The same environment in an interpreter whose sets iterate the other way round.\<close>

definition reversed_order_env :: env where
  "reversed_order_env = sample_env\<lparr>list_of_set := hash_order_b\<rparr>"

text \<open>A video that does not open and an audio file that does not decode.\<close>

definition broken_media_env :: env where
  "broken_media_env =
     sample_env\<lparr>video_capture_of :=
                  (\<lambda>p. \<lparr>isOpened = False, cap_fps = Finite 0, cap_frames = []\<rparr>),
                librosa_load := (\<lambda>p. Inl (LibraryError ''Format not recognised.''))\<rparr>"

text \<open>What the image operation returns for a path at which no file exists.\<close>

definition missing_file_result :: analysis_result where
  "missing_file_result =
     \<lparr>ar_file_id = ''00000000-0000-4000-8000-000000000000'',
      ar_file_name = ''missing.jpg'',
      ar_file_type = ''image'',
      ar_file_size = 0,
      ar_is_fake = False,
      ar_confidence = 0,
      ar_model_used = ''Error'',
      ar_metadata = [(''error'', PyStr ''Image file not found: uploads/missing.jpg'')]\<rparr>"

section \<open>Properties\<close>

subsection \<open>Reductions\<close>

lemma np_var_nonneg: "0 \<le> np_var xs"
  unfolding np_var_def np_mean_def
  by (intro divide_nonneg_nonneg sum_list_nonneg) auto

lemma np_std_nonneg: "0 \<le> np_std xs"
  by (simp add: np_std_def np_var_nonneg)

subsection \<open>Frame sampling\<close>

lemma read_loop_length:
  "length frames < 30 \<Longrightarrow> read_loop k src frames n = Inr out \<Longrightarrow> length out \<le> 30"
proof (induction src arbitrary: frames n)
  case Nil
  then show ?case by simp
next
  case (Cons frame rest)
  show ?case
  proof (cases "k = 0")
    case True
    with Cons.prems show ?thesis by simp
  next
    case False
    define frames' where
      "frames' = (if int n mod k = 0 then frames @ [frame_path n] else frames)"
    have len: "length frames' \<le> 30"
      using Cons.prems(1) by (simp add: frames'_def)
    show ?thesis
    proof (cases "30 \<le> length frames'")
      case True
      with Cons.prems(2) False have "out = frames'"
        by (simp add: frames'_def Let_def split: if_splits)
      with len show ?thesis by simp
    next
      case short: False
      with Cons.prems(2) \<open>k \<noteq> 0\<close> have "read_loop k rest frames' (n + 1) = Inr out"
        by (simp add: frames'_def Let_def split: if_splits)
      moreover from short have "length frames' < 30" by simp
      ultimately show ?thesis by (rule Cons.IH[rotated])
    qed
  qed
qed

text \<open>
  C8. Whatever the capture reports and however many frames it holds, the frame list that
  \<^verbatim>\<open>_extract_frames\<close> returns has at most 30 entries.
\<close>

theorem extract_frames_at_most_30: "length (extract_frames cap frame_rate) \<le> 30"
proof (cases "extract_frames_body cap frame_rate")
  case (Inl e)
  then show ?thesis by (simp add: extract_frames_def)
next
  case (Inr out)
  have "length out \<le> 30"
  proof (cases "isOpened cap")
    case False
    with Inr show ?thesis by (simp add: extract_frames_body_def)
  next
    case True
    with Inr obtain k where "read_loop k (cap_frames cap) [] 0 = Inr out"
      by (auto simp: extract_frames_body_def split: sum.splits)
    then show ?thesis using read_loop_length[of "[]"] by simp
  qed
  with Inr show ?thesis by (simp add: extract_frames_def)
qed

subsection \<open>Temporal consistency\<close>

text \<open>
  C7. The temporal consistency score of the source is the specification's score: 1 for
  fewer than two frames, otherwise \<open>1 / (1 + 10 * variance)\<close> clamped to [0,1].
\<close>

theorem temporal_consistency_refines_spec:
  "analyze_temporal_consistency fs = spec_temporal_consistency fs"
proof -
  have "0 < 1 + np_var fs * 10"
    using np_var_nonneg[of fs] by linarith
  then have "0 \<le> 1 / (1 + np_var fs * 10)" by simp
  then show ?thesis
    by (simp add: analyze_temporal_consistency_def spec_temporal_consistency_def
        clamp01_def Let_def mult.commute min.commute)
qed

subsection \<open>Face cues\<close>

lemma length_flatten: "length (flatten a) = nrows a * ncols a"
  by (simp add: flatten_def length_concat comp_def sum_list_triv)

lemma sum_list_unat_le: "(\<Sum>w\<leftarrow>ws. unat (w :: 8 word)) \<le> 255 * length ws"
proof (induction ws)
  case Nil
  then show ?case by simp
next
  case (Cons w ws)
  have "unat w < 2 ^ 8" using unsigned_less[of w] by simp
  then have "unat w \<le> 255" by simp
  with Cons show ?case by simp
qed

lemma edge_density_le_255: "edge_density edges \<le> 255"
proof (cases "nrows edges * ncols edges = 0")
  case True
  then have "length (flatten edges) = 0" by (simp only: length_flatten)
  then have "flatten edges = []" by simp
  then show ?thesis by (simp add: edge_density_def)
next
  case False
  have "(\<Sum>w\<leftarrow>flatten edges. unat w) \<le> 255 * (nrows edges * ncols edges)"
    using sum_list_unat_le[of "flatten edges"] by (simp only: length_flatten)
  then have "real (\<Sum>w\<leftarrow>flatten edges. unat w) \<le> real (255 * (nrows edges * ncols edges))"
    by (simp only: of_nat_le_iff)
  then have "real (\<Sum>w\<leftarrow>flatten edges. unat w) \<le> 255 * real (nrows edges * ncols edges)"
    by simp
  moreover from False have "0 < real (nrows edges * ncols edges)" by simp
  ultimately show ?thesis
    unfolding edge_density_def by (simp only: pos_divide_le_eq)
qed


lemma check_face_artifacts_not_True: "check_face_artifacts env face_image \<noteq> Inr True"
proof
  assume a: "check_face_artifacts env face_image = Inr True"
  then obtain edges where "edge_density edges > 1000"
    by (auto simp: check_face_artifacts_def bindE_def split: sum.splits)
  with edge_density_le_255[of edges] show False by linarith
qed

lemma analyze_faces_cues:
  "set (fst (analyze_faces env img i locs cues))
     \<subseteq> set cues \<union> {''Face '' @ str_of_nat k @ '': No obvious artifacts'' | k. True}"
proof (induction locs arbitrary: i cues)
  case Nil
  then show ?case by simp
next
  case (Cons loc locs)
  obtain t r b l where loc: "loc = (t, r, b, l)" by (cases loc) auto
  show ?case
  proof (cases "check_face_artifacts env (slice2 img t b l r)")
    case (Inl e)
    then show ?thesis by (simp add: loc)
  next
    case (Inr flag)
    with check_face_artifacts_not_True[of env "slice2 img t b l r"] have f: "flag = False" by auto
    have step: "analyze_faces env img i (loc # locs) cues =
        analyze_faces env img (i + 1) locs (cues @ [''Face '' @ str_of_nat (i + 1) @ '': No obvious artifacts''])"
      using Inr f by (simp add: loc del: str_of_nat.simps)
    show ?thesis
      unfolding step
      using Cons.IH[of "i + 1" "cues @ [''Face '' @ str_of_nat (i + 1) @ '': No obvious artifacts'']"]
      by (auto simp del: str_of_nat.simps)
  qed
qed


lemma potential_cue_last: "last (''Face '' @ s @ '': Potential artifacts detected'') = CHR ''d''"
  by simp

lemma potential_cue_length: "35 \<le> length (''Face '' @ s @ '': Potential artifacts detected'')"
  by simp

lemma extract_visual_cues_cues:
  "set (extract_visual_cues env p) \<subseteq>
     {''Face analysis failed'', ''No faces detected''}
     \<union> {''Detected '' @ str_of_nat n @ '' face(s)'' | n. True}
     \<union> {''Face '' @ str_of_nat k @ '': No obvious artifacts'' | k. True}"
proof (cases "load_image_file env p")
  case (Inl e)
  then show ?thesis by (simp add: extract_visual_cues_def)
next
  case img: (Inr img)
  show ?thesis
  proof (cases "face_locations env img")
    case (Inl e)
    with img show ?thesis by (simp add: extract_visual_cues_def)
  next
    case locs: (Inr locs)
    show ?thesis
    proof (cases "locs = []")
      case True
      with img locs show ?thesis by (simp add: extract_visual_cues_def)
    next
      case False
      define start where "start = [''Detected '' @ str_of_nat (length locs) @ '' face(s)'']"
      obtain cues r where run: "analyze_faces env img 0 locs start = (cues, r)"
        by (cases "analyze_faces env img 0 locs start") auto
      have "set cues \<subseteq> set start \<union> {''Face '' @ str_of_nat k @ '': No obvious artifacts'' | k. True}"
        using analyze_faces_cues[of env img 0 locs start] run by simp
      moreover have "extract_visual_cues env p = (case r of None \<Rightarrow> cues | Some e \<Rightarrow> cues @ [''Face analysis failed''])"
        using img locs False run by (simp add: extract_visual_cues_def start_def)
      ultimately show ?thesis
        by (cases r) (auto simp: start_def)
    qed
  qed
qed

lemma potential_cue_not_extracted:
  "(''Face '' @ str_of_nat k @ '': Potential artifacts detected'') \<notin> set (extract_visual_cues env p)"
proof
  let ?c = "''Face '' @ str_of_nat k @ '': Potential artifacts detected''"
  assume "?c \<in> set (extract_visual_cues env p)"
  with extract_visual_cues_cues[of env p] consider
      "?c = ''Face analysis failed''" | "?c = ''No faces detected''"
    | n where "?c = ''Detected '' @ str_of_nat n @ '' face(s)''"
    | j where "?c = ''Face '' @ str_of_nat j @ '': No obvious artifacts''"
    by blast
  then show False
  proof cases
    case 1
    then have "length ?c = length ''Face analysis failed''" by (rule arg_cong)
    then show False by simp
  next
    case 2
    then have "length ?c = length ''No faces detected''" by (rule arg_cong)
    then show False by simp
  next
    case (3 n)
    then have "last ?c = last (''Detected '' @ str_of_nat n @ '' face(s)'')" by (rule arg_cong)
    then show False by simp
  next
    case (4 j)
    then have "last ?c = last (''Face '' @ str_of_nat j @ '': No obvious artifacts'')" by (rule arg_cong)
    then show False by simp
  qed
qed

lemma check_face_artifacts_False:
  "array_size face_image \<noteq> 0 \<Longrightarrow>
   canny env (map_ndarray (rgb2gray env) face_image) = Inr edges \<Longrightarrow>
   check_face_artifacts env face_image = Inr False"
  using edge_density_le_255[of edges]
  by (simp add: check_face_artifacts_def bindE_def cvtColor_def)

lemma str_of_nat_digits:
  "str_of_nat 0 = ''0''" "str_of_nat (Suc 0) = ''1''" "str_of_nat 2 = ''2''"
  "str_of_nat 3 = ''3''" "str_of_nat 4 = ''4''" "str_of_nat 5 = ''5''"
  by code_simp+


text \<open>
  C10. The edge density is a sum of \<^verbatim>\<open>uint8\<close> values over their count, so it is at most
  255 and never exceeds the threshold 1000: the face-artifact check never returns true, it
  returns false whenever the conversion and Canny succeed, and no cue list holds a
  "Face k: Potential artifacts detected" entry.
\<close>

theorem face_artifact_check_never_true:
  "edge_density edges \<le> 255
   \<and> check_face_artifacts env face_image \<noteq> Inr True
   \<and> (array_size face_image \<noteq> 0
        \<and> canny env (map_ndarray (rgb2gray env) face_image) = Inr edges
      \<longrightarrow> check_face_artifacts env face_image = Inr False)
   \<and> (''Face '' @ str_of_nat k @ '': Potential artifacts detected'')
        \<notin> set (extract_visual_cues env image_path)"
  using edge_density_le_255 check_face_artifacts_not_True check_face_artifacts_False
    potential_cue_not_extracted
  by blast

theorem face_artifact_check_never_true_witness:
  "check_face_artifacts sample_env gray_2x2 = Inr False
   \<and> extract_visual_cues sample_env ''photo.jpg''
       = [''Detected 1 face(s)'', ''Face 1: No obvious artifacts'']"
proof -
  let ?edges = "map_ndarray (\<lambda>w. 0 :: 8 word) (map_ndarray (rgb2gray sample_env) gray_2x2)"
  have "array_size gray_2x2 \<noteq> 0" by (simp add: array_size_def gray_2x2_def)
  moreover have "canny sample_env (map_ndarray (rgb2gray sample_env) gray_2x2) = Inr ?edges"
    by (simp add: sample_env_def)
  ultimately have c: "check_face_artifacts sample_env gray_2x2 = Inr False"
    using face_artifact_check_never_true[of ?edges sample_env gray_2x2] by blast
  have s: "slice2 gray_2x2 0 2 0 2 = gray_2x2"
    by (simp add: slice2_def gray_2x2_def)
  have "extract_visual_cues sample_env ''photo.jpg''
       = [''Detected 1 face(s)'', ''Face 1: No obvious artifacts'']"
    using c by (simp add: extract_visual_cues_def sample_env_def s str_of_nat_digits)
  with c show ?thesis by simp
qed

subsection \<open>Neutral outcomes\<close>

lemma video_no_frames:
  "extract_frames (video_capture_of env video_path) 1 = [] \<Longrightarrow>
   video_model_analyze_video env video_path = fallback_video_analysis"
  by (simp add: video_model_analyze_video_def video_model_analyze_video_body_def)

lemma video_raise:
  "video_model_analyze_video_body env video_path = Inl e \<Longrightarrow>
   video_model_analyze_video env video_path = fallback_video_analysis"
  by (simp add: video_model_analyze_video_def)

lemma audio_failure:
  "librosa_load env audio_path = Inl e
   \<or> (\<exists>audio. librosa_load env audio_path = Inr audio
        \<and> (mfcc env audio = Inl e \<or> spectral_centroid env audio = Inl e
           \<or> spectral_rolloff env audio = Inl e \<or> hilbert_phase_unwrapped env audio = Inl e)) \<Longrightarrow>
   audio_model_analyze_audio env audio_path = fallback_audio_analysis"
  by (auto simp: audio_model_analyze_audio_def audio_model_analyze_audio_body_def bindE_def
      analyze_phase_consistency_def Let_def split: sum.splits)

lemma getsize_exists: "path_exists env p \<Longrightarrow> getsize env p = Inr (file_size_of env p)"
  by (simp add: getsize_def)

lemma build_result_ok:
  "path_exists env p \<Longrightarrow>
   record_prediction env ft (if is_fake r then ''fake'' else ''real'') (confidence r) = Inr () \<Longrightarrow>
   \<exists>out. build_result env ft p fid fname fsize r extra = Inr out
     \<and> ar_is_fake out = is_fake r \<and> ar_confidence out = confidence r
     \<and> ar_model_used out = model_used r
     \<and> lookup out ''fake_probability'' = Some (PyFloat (fake_probability r))
     \<and> lookup out ''real_probability'' = Some (PyFloat (real_probability r))
     \<and> lookup out ''visual_cues'' = Some (PyStrList (visual_cues r))"
  by (cases fsize) (simp_all add: build_result_def bindE_def getsize_exists lookup_def)

lemma video_public_neutral:
  assumes "path_exists env video_path"
    and "extract_frames (video_capture_of env video_path) 1 = []"
    and "metrics_inc env ''video'' ''real'' ''low'' = None"
  shows "\<exists>out. analyze_video env video_path fid fname fsize = Inr out
     \<and> \<not> ar_is_fake out \<and> ar_confidence out = 0.5
     \<and> lookup out ''fake_probability'' = Some (PyFloat 0.5)
     \<and> lookup out ''visual_cues'' = Some (PyStrList [''Video analysis failed''])"
proof -
  have r: "video_model_analyze_video env video_path = fallback_video_analysis"
    using assms(2) by (rule video_no_frames)
  have "record_prediction env ''video''
          (if is_fake fallback_video_analysis then ''fake'' else ''real'')
          (confidence fallback_video_analysis) = Inr ()"
    using assms(3) by (simp add: record_prediction_def fallback_video_analysis_def)
  from build_result_ok[OF assms(1) this, of fid fname fsize
      "[(''frames_analyzed'', PyInt (int (frames_analyzed fallback_video_analysis))),
        (''temporal_consistency'', PyFloat (temporal_consistency fallback_video_analysis)),
        (''temporal_analysis'', temporal_analysis_of env video_path)]"]
  obtain out where
    b: "build_result env ''video'' video_path fid fname fsize fallback_video_analysis
          [(''frames_analyzed'', PyInt (int (frames_analyzed fallback_video_analysis))),
           (''temporal_consistency'', PyFloat (temporal_consistency fallback_video_analysis)),
           (''temporal_analysis'', temporal_analysis_of env video_path)] = Inr out"
    and f: "ar_is_fake out = is_fake fallback_video_analysis"
      "ar_confidence out = confidence fallback_video_analysis"
      "lookup out ''fake_probability'' = Some (PyFloat (fake_probability fallback_video_analysis))"
      "lookup out ''visual_cues'' = Some (PyStrList (visual_cues fallback_video_analysis))"
    by blast
  have "analyze_video env video_path fid fname fsize = Inr out"
    using assms(1) b by (simp add: analyze_video_def analyze_video_body_def r Let_def)
  with f show ?thesis
    by (simp add: fallback_video_analysis_def)
qed


lemma audio_public_neutral:
  assumes "path_exists env audio_path"
    and "audio_model_analyze_audio env audio_path = fallback_audio_analysis"
    and "metrics_inc env ''audio'' ''real'' ''low'' = None"
  shows "\<exists>out. analyze_audio env audio_path fid fname fsize = Inr out
     \<and> \<not> ar_is_fake out \<and> ar_confidence out = 0.5
     \<and> lookup out ''fake_probability'' = Some (PyFloat 0.5)
     \<and> lookup out ''visual_cues'' = Some (PyStrList [''Audio analysis failed''])"
proof -
  have "record_prediction env ''audio''
          (if is_fake fallback_audio_analysis then ''fake'' else ''real'')
          (confidence fallback_audio_analysis) = Inr ()"
    using assms(3) by (simp add: record_prediction_def fallback_audio_analysis_def)
  from build_result_ok[OF assms(1) this, of fid fname fsize
      "[(''duration'', PyFloat (duration fallback_audio_analysis)),
        (''sample_rate'', PyInt (int (sample_rate fallback_audio_analysis))),
        (''spectrogram_features'', extract_spectrogram env audio_path)]"]
  obtain out where
    b: "build_result env ''audio'' audio_path fid fname fsize fallback_audio_analysis
          [(''duration'', PyFloat (duration fallback_audio_analysis)),
           (''sample_rate'', PyInt (int (sample_rate fallback_audio_analysis))),
           (''spectrogram_features'', extract_spectrogram env audio_path)] = Inr out"
    and f: "ar_is_fake out = is_fake fallback_audio_analysis"
      "ar_confidence out = confidence fallback_audio_analysis"
      "lookup out ''fake_probability'' = Some (PyFloat (fake_probability fallback_audio_analysis))"
      "lookup out ''visual_cues'' = Some (PyStrList (visual_cues fallback_audio_analysis))"
    by blast
  have "analyze_audio env audio_path fid fname fsize = Inr out"
    using assms(1) b by (simp add: analyze_audio_def analyze_audio_body_def assms(2) Let_def)
  with f show ?thesis
    by (simp add: fallback_audio_analysis_def)
qed

text \<open>
  C3. When the frame list is empty, \<^verbatim>\<open>RealVideoModel.analyze_video\<close> returns the fixed
  neutral dictionary (fake probability 0.5, confidence 0.5, cues "Video analysis failed"),
  and when loading or any feature extraction raises, \<^verbatim>\<open>RealAudioModel.analyze_audio\<close>
  returns its neutral dictionary (0.5, 0.5, "Audio analysis failed"); for an existing file
  and a recorded metric the public operation hands these values on unchanged.
\<close>

theorem neutral_outcome_on_empty_or_failed_input:
  "(extract_frames (video_capture_of env video_path) 1 = [] \<longrightarrow>
      video_model_analyze_video env video_path = fallback_video_analysis
      \<and> (path_exists env video_path \<and> metrics_inc env ''video'' ''real'' ''low'' = None \<longrightarrow>
           (\<exists>out. analyze_video env video_path fid fname fsize = Inr out
              \<and> \<not> ar_is_fake out \<and> ar_confidence out = 0.5
              \<and> lookup out ''fake_probability'' = Some (PyFloat 0.5)
              \<and> lookup out ''visual_cues'' = Some (PyStrList [''Video analysis failed'']))))
   \<and> (librosa_load env audio_path = Inl e
        \<or> (\<exists>audio. librosa_load env audio_path = Inr audio
             \<and> (mfcc env audio = Inl e \<or> spectral_centroid env audio = Inl e
                \<or> spectral_rolloff env audio = Inl e
                \<or> hilbert_phase_unwrapped env audio = Inl e)) \<longrightarrow>
      audio_model_analyze_audio env audio_path = fallback_audio_analysis
      \<and> (path_exists env audio_path \<and> metrics_inc env ''audio'' ''real'' ''low'' = None \<longrightarrow>
           (\<exists>out. analyze_audio env audio_path fid fname fsize = Inr out
              \<and> \<not> ar_is_fake out \<and> ar_confidence out = 0.5
              \<and> lookup out ''fake_probability'' = Some (PyFloat 0.5)
              \<and> lookup out ''visual_cues'' = Some (PyStrList [''Audio analysis failed'']))))
   \<and> fake_probability fallback_video_analysis = 0.5
   \<and> confidence fallback_video_analysis = 0.5
   \<and> visual_cues fallback_video_analysis = [''Video analysis failed'']
   \<and> fake_probability fallback_audio_analysis = 0.5
   \<and> confidence fallback_audio_analysis = 0.5
   \<and> visual_cues fallback_audio_analysis = [''Audio analysis failed'']"
proof (intro conjI impI)
  assume "extract_frames (video_capture_of env video_path) 1 = []"
  then show "video_model_analyze_video env video_path = fallback_video_analysis"
    by (rule video_no_frames)
next
  assume "extract_frames (video_capture_of env video_path) 1 = []"
    and "path_exists env video_path \<and> metrics_inc env ''video'' ''real'' ''low'' = None"
  then show "\<exists>out. analyze_video env video_path fid fname fsize = Inr out
              \<and> \<not> ar_is_fake out \<and> ar_confidence out = 0.5
              \<and> lookup out ''fake_probability'' = Some (PyFloat 0.5)
              \<and> lookup out ''visual_cues'' = Some (PyStrList [''Video analysis failed''])"
    using video_public_neutral by blast
next
  assume a: "librosa_load env audio_path = Inl e
        \<or> (\<exists>audio. librosa_load env audio_path = Inr audio
             \<and> (mfcc env audio = Inl e \<or> spectral_centroid env audio = Inl e
                \<or> spectral_rolloff env audio = Inl e
                \<or> hilbert_phase_unwrapped env audio = Inl e))"
  then show f: "audio_model_analyze_audio env audio_path = fallback_audio_analysis"
    by (rule audio_failure)
  assume "path_exists env audio_path \<and> metrics_inc env ''audio'' ''real'' ''low'' = None"
  with f show "\<exists>out. analyze_audio env audio_path fid fname fsize = Inr out
              \<and> \<not> ar_is_fake out \<and> ar_confidence out = 0.5
              \<and> lookup out ''fake_probability'' = Some (PyFloat 0.5)
              \<and> lookup out ''visual_cues'' = Some (PyStrList [''Audio analysis failed''])"
    using audio_public_neutral by blast
qed (simp_all add: fallback_video_analysis_def fallback_audio_analysis_def)

theorem neutral_outcome_on_empty_or_failed_input_witness:
  "video_model_analyze_video broken_media_env ''clip.mp4'' = fallback_video_analysis
   \<and> (\<exists>out. analyze_video broken_media_env ''clip.mp4'' None None None = Inr out
          \<and> \<not> ar_is_fake out \<and> ar_confidence out = 0.5
          \<and> lookup out ''fake_probability'' = Some (PyFloat 0.5)
          \<and> lookup out ''visual_cues'' = Some (PyStrList [''Video analysis failed'']))
   \<and> audio_model_analyze_audio broken_media_env ''voice.wav'' = fallback_audio_analysis
   \<and> (\<exists>out. analyze_audio broken_media_env ''voice.wav'' None None None = Inr out
          \<and> \<not> ar_is_fake out \<and> ar_confidence out = 0.5
          \<and> lookup out ''fake_probability'' = Some (PyFloat 0.5)
          \<and> lookup out ''visual_cues'' = Some (PyStrList [''Audio analysis failed'']))"
proof -
  have v: "extract_frames (video_capture_of broken_media_env ''clip.mp4'') 1 = []"
    by (simp add: broken_media_env_def sample_env_def extract_frames_def extract_frames_body_def)
  have a: "librosa_load broken_media_env ''voice.wav'' = Inl (LibraryError ''Format not recognised.'')"
    by (simp add: broken_media_env_def sample_env_def)
  have pv: "path_exists broken_media_env ''clip.mp4'' \<and> metrics_inc broken_media_env ''video'' ''real'' ''low'' = None"
    by (simp add: broken_media_env_def sample_env_def)
  have pa: "path_exists broken_media_env ''voice.wav'' \<and> metrics_inc broken_media_env ''audio'' ''real'' ''low'' = None"
    by (simp add: broken_media_env_def sample_env_def)
  show ?thesis
    using neutral_outcome_on_empty_or_failed_input[of broken_media_env "''clip.mp4''" None None None
        "''voice.wav''" "LibraryError ''Format not recognised.''"] v a pv pa
    by blast
qed

subsection \<open>Cue aggregation\<close>

lemma set_enumeration_a: "set_enumeration hash_order_a"
  by (simp add: set_enumeration_def hash_order_a_def)

lemma set_enumeration_b: "set_enumeration hash_order_b"
  by (simp add: set_enumeration_def hash_order_b_def)

lemma set_enumeration_length:
  "set_enumeration order \<Longrightarrow> length (order xs) = card (set xs)"
  by (metis set_enumeration_def distinct_card)

lemma combine_length:
  "set_enumeration order \<Longrightarrow>
   length (combine_visual_cues order cs) = min 5 (card (set (concat cs)))"
  by (simp add: combine_visual_cues_def set_enumeration_length min.commute)

lemma combine_distinct:
  "set_enumeration order \<Longrightarrow> distinct (combine_visual_cues order cs)"
  by (simp add: combine_visual_cues_def set_enumeration_def)

lemma combine_subset:
  "set_enumeration order \<Longrightarrow> set (combine_visual_cues order cs) \<subseteq> set (concat cs)"
  using set_take_subset[of 5 "order (concat cs)"]
  by (simp add: combine_visual_cues_def set_enumeration_def)

lemma combine_all:
  "set_enumeration order \<Longrightarrow> card (set (concat cs)) \<le> 5 \<Longrightarrow>
   set (combine_visual_cues order cs) = set (concat cs)"
  by (simp add: combine_visual_cues_def set_enumeration_length) (simp add: set_enumeration_def)

lemma count_list_distinct:
  "distinct xs \<Longrightarrow> x \<in> set xs \<Longrightarrow> count_list xs x = 1"
  by (induction xs) auto

subsection \<open>Face loop without failures\<close>

lemma analyze_faces_no_raise:
  "\<forall>loc \<in> set locs. \<exists>b. check_face_artifacts env (face_region img loc) = Inr b \<Longrightarrow>
   analyze_faces env img i locs cues =
     (cues @ map (\<lambda>(j, loc). face_cue env img (Suc j) loc) (enumerate i locs), None)"
proof (induction locs arbitrary: i cues)
  case Nil
  then show ?case by simp
next
  case (Cons loc locs)
  obtain t r b l where loc: "loc = (t, r, b, l)" by (cases loc) auto
  from Cons.prems obtain flag where
    c: "check_face_artifacts env (slice2 img t b l r) = Inr flag"
    by (auto simp: loc face_region_def)
  have tl: "\<forall>loc \<in> set locs. \<exists>b. check_face_artifacts env (face_region img loc) = Inr b"
    using Cons.prems by simp
  show ?case
    using c Cons.IH[OF tl]
    by (cases flag) (simp_all add: loc face_cue_def face_region_def)
qed

lemma sample_check: "check_face_artifacts sample_env (slice2 gray_2x2 t b l r) = Inr False"
  if "array_size (slice2 gray_2x2 t b l r) \<noteq> 0" for t b l r
  using that check_face_artifacts_False[of "slice2 gray_2x2 t b l r" sample_env]
  by (simp add: sample_env_def)

lemma sample_cues:
  "extract_visual_cues sample_env ''photo.jpg''
     = [''Detected 1 face(s)'', ''Face 1: No obvious artifacts'']"
proof -
  have "check_face_artifacts sample_env (slice2 gray_2x2 0 2 0 2) = Inr False"
    by (rule sample_check) (simp add: array_size_def slice2_def gray_2x2_def)
  then show ?thesis
    by (simp add: extract_visual_cues_def sample_env_def str_of_nat_digits)
qed

lemma crowd_check: "check_face_artifacts crowd_env face = check_face_artifacts sample_env face"
  by (simp add: check_face_artifacts_def crowd_env_def)

lemma str_of_nat_Suc:
  "str_of_nat (Suc (Suc 0)) = ''2''" "str_of_nat (Suc (Suc (Suc 0))) = ''3''"
  "str_of_nat (Suc (Suc (Suc (Suc 0)))) = ''4''"
  "str_of_nat (Suc (Suc (Suc (Suc (Suc 0))))) = ''5''"
  by code_simp+

lemma crowd_cues:
  "extract_visual_cues crowd_env ''photo.jpg''
     = [''Detected 5 face(s)'', ''Face 1: No obvious artifacts'', ''Face 2: No obvious artifacts'',
        ''Face 3: No obvious artifacts'', ''Face 4: No obvious artifacts'',
        ''Face 5: No obvious artifacts'']"
proof -
  let ?locs = "[(0, 1, 1, 0), (0, 2, 1, 1), (1, 1, 2, 0), (1, 2, 2, 1), (0, 2, 2, 0)] :: face_location list"
  have c: "check_face_artifacts crowd_env (face_region gray_2x2 loc) = Inr False"
    if "loc \<in> set ?locs" for loc
  proof -
    obtain t r b l where loc: "loc = (t, r, b, l)" by (cases loc) auto
    have "array_size (slice2 gray_2x2 t b l r) \<noteq> 0"
      using that by (auto simp: loc array_size_def slice2_def gray_2x2_def)
    then show ?thesis
      by (simp add: loc face_region_def crowd_check sample_check)
  qed
  then have run: "analyze_faces crowd_env gray_2x2 0 ?locs cues =
     (cues @ map (\<lambda>(j, loc). face_cue crowd_env gray_2x2 (Suc j) loc) (enumerate 0 ?locs), None)"
    for cues
    by (intro analyze_faces_no_raise) blast
  have l: "load_image_file crowd_env ''photo.jpg'' = Inr gray_2x2"
    "face_locations crowd_env gray_2x2 = Inr ?locs"
    by (simp_all add: crowd_env_def sample_env_def)
  have cue: "face_cue crowd_env gray_2x2 i loc = ''Face '' @ str_of_nat i @ '': No obvious artifacts''"
    if "loc \<in> set ?locs" for i loc
    using c[OF that] by (simp add: face_cue_def)
  show ?thesis
    unfolding extract_visual_cues_def l sum.case run
    by (simp add: cue str_of_nat_digits str_of_nat_Suc)
qed

subsection \<open>Cue aggregation over a video\<close>

lemma check_face_artifacts_cong:
  "rgb2gray env' = rgb2gray env \<Longrightarrow> canny env' = canny env \<Longrightarrow>
   check_face_artifacts env' face = check_face_artifacts env face"
  by (simp add: check_face_artifacts_def)

lemma analyze_faces_cong:
  "rgb2gray env' = rgb2gray env \<Longrightarrow> canny env' = canny env \<Longrightarrow>
   analyze_faces env' img i locs cues = analyze_faces env img i locs cues"
proof (induction locs arbitrary: i cues)
  case Nil
  then show ?case by simp
next
  case (Cons loc locs)
  obtain t r b l where loc: "loc = (t, r, b, l)" by (cases loc) auto
  have c: "check_face_artifacts env' (slice2 img t b l r) = check_face_artifacts env (slice2 img t b l r)"
    using Cons.prems by (rule check_face_artifacts_cong)
  have ih: "analyze_faces env' img (i + 1) locs cs = analyze_faces env img (i + 1) locs cs" for cs
    using Cons.IH[OF Cons.prems] .
  show ?case
  proof (cases "check_face_artifacts env (slice2 img t b l r)")
    case (Inl e)
    with c show ?thesis by (simp add: loc)
  next
    case (Inr flag)
    with c ih show ?thesis by (cases flag) (simp_all add: loc)
  qed
qed


lemma extract_visual_cues_cong:
  assumes "load_image_file env' = load_image_file env" "face_locations env' = face_locations env"
    "rgb2gray env' = rgb2gray env" "canny env' = canny env"
  shows "extract_visual_cues env' p = extract_visual_cues env p"
  unfolding extract_visual_cues_def assms(1,2) analyze_faces_cong[OF assms(3,4)] ..

lemma sample_cues_any_path:
  "extract_visual_cues sample_env p = [''Detected 1 face(s)'', ''Face 1: No obvious artifacts'']"
proof -
  have "extract_visual_cues sample_env p = extract_visual_cues sample_env ''photo.jpg''"
    unfolding extract_visual_cues_def by (simp add: sample_env_def)
  then show ?thesis by (simp only: sample_cues)
qed

lemma sample_frames:
  "extract_frames \<lparr>isOpened = True, cap_fps = Finite 1, cap_frames = [f0, f1]\<rparr> 1
     = [frame_path 0, frame_path (Suc 0)]"
  by (simp add: extract_frames_def extract_frames_body_def)


lemma huggingface_cues:
  "predict_top10 env q = Inr probs \<Longrightarrow>
   visual_cues (huggingface_analysis env q) = extract_visual_cues env q"
  by (simp add: huggingface_analysis_def Let_def)

lemma analyze_frames_two:
  "model_loaded env \<Longrightarrow> os_remove env a = None \<Longrightarrow> os_remove env b = None \<Longrightarrow>
   analyze_frames env [a, b] [] = Inr [huggingface_analysis env a, huggingface_analysis env b]"
  by simp

lemma video_cues_two_frames:
  assumes "video_capture_of env p = \<lparr>isOpened = True, cap_fps = Finite 1, cap_frames = [f0, f1]\<rparr>"
    and "model_loaded env" and "\<And>q. os_remove env q = None"
    and "\<And>q. predict_top10 env q = Inr probs"
  shows "visual_cues (video_model_analyze_video env p) =
     combine_visual_cues (list_of_set env)
       [extract_visual_cues env (frame_path 0), extract_visual_cues env (frame_path (Suc 0))]"
proof -
  have fr: "analyze_frames env [frame_path 0, frame_path (Suc 0)] [] =
     Inr [huggingface_analysis env (frame_path 0), huggingface_analysis env (frame_path (Suc 0))]"
    by (rule analyze_frames_two) (simp_all add: assms(2,3))
  have body: "video_model_analyze_video_body env p = Inr r \<Longrightarrow>
      visual_cues r = combine_visual_cues (list_of_set env)
       [extract_visual_cues env (frame_path 0), extract_visual_cues env (frame_path (Suc 0))]" for r
    unfolding video_model_analyze_video_body_def assms(1) sample_frames fr bindE_def Let_def
    by (auto simp: huggingface_cues[OF assms(4)])
  have "\<exists>r. video_model_analyze_video_body env p = Inr r"
    unfolding video_model_analyze_video_body_def assms(1) sample_frames fr bindE_def Let_def
    by simp
  then obtain r where r: "video_model_analyze_video_body env p = Inr r" ..
  then have "video_model_analyze_video env p = r"
    by (simp add: video_model_analyze_video_def)
  with body[OF r] show ?thesis by simp
qed

lemma sample_video_facts:
  "video_capture_of sample_env p = \<lparr>isOpened = True, cap_fps = Finite 1, cap_frames = [gray_2x2, gray_2x2]\<rparr>"
  "model_loaded sample_env" "os_remove sample_env q = None"
  "predict_top10 sample_env q = Inr [0.91, 0.01, 0.01, 0.01, 0.01, 0.01, 0.01, 0.01, 0.01, 0.01]"
  "list_of_set sample_env = hash_order_a"
  by (simp_all add: sample_env_def)

lemma reversed_video_facts:
  "video_capture_of reversed_order_env p = \<lparr>isOpened = True, cap_fps = Finite 1, cap_frames = [gray_2x2, gray_2x2]\<rparr>"
  "model_loaded reversed_order_env" "os_remove reversed_order_env q = None"
  "predict_top10 reversed_order_env q = Inr [0.91, 0.01, 0.01, 0.01, 0.01, 0.01, 0.01, 0.01, 0.01, 0.01]"
  "list_of_set reversed_order_env = hash_order_b"
  by (simp_all add: reversed_order_env_def sample_env_def)

lemma reversed_cues_any_path:
  "extract_visual_cues reversed_order_env p = [''Detected 1 face(s)'', ''Face 1: No obvious artifacts'']"
proof -
  have "extract_visual_cues reversed_order_env p = extract_visual_cues sample_env p"
    by (rule extract_visual_cues_cong) (simp_all add: reversed_order_env_def)
  then show ?thesis by (simp only: sample_cues_any_path)
qed

lemma crowd_video_facts:
  "video_capture_of crowd_env p = \<lparr>isOpened = True, cap_fps = Finite 1, cap_frames = [gray_2x2, gray_2x2]\<rparr>"
  "model_loaded crowd_env" "os_remove crowd_env q = None"
  "predict_top10 crowd_env q = Inr [0.91, 0.01, 0.01, 0.01, 0.01, 0.01, 0.01, 0.01, 0.01, 0.01]"
  "list_of_set crowd_env = hash_order_a"
  by (simp_all add: crowd_env_def sample_env_def)

lemma crowd_cues_any_path:
  "extract_visual_cues crowd_env p
     = [''Detected 5 face(s)'', ''Face 1: No obvious artifacts'', ''Face 2: No obvious artifacts'',
        ''Face 3: No obvious artifacts'', ''Face 4: No obvious artifacts'',
        ''Face 5: No obvious artifacts'']"
proof -
  have "extract_visual_cues crowd_env p = extract_visual_cues crowd_env ''photo.jpg''"
    unfolding extract_visual_cues_def by (simp add: crowd_env_def sample_env_def)
  then show ?thesis by (simp only: crowd_cues)
qed

text \<open>
  C5, as amended. Python iterates a set of strings in an order that depends on the
  interpreter's hash seed, so two runs on the same per-frame cue lists agree only up to that
  order: the aggregated lists have the same length; when there are at most five distinct
  cues they hold the same cues; and they are identical when both runs iterate in the same
  order.
\<close>

theorem cue_aggregation_up_to_order:
  assumes "set_enumeration order1" and "set_enumeration order2"
  shows "length (combine_visual_cues order1 cs) = length (combine_visual_cues order2 cs)
    \<and> (card (set (concat cs)) \<le> 5 \<longrightarrow>
         set (combine_visual_cues order1 cs) = set (combine_visual_cues order2 cs))
    \<and> (order1 = order2 \<longrightarrow> combine_visual_cues order1 cs = combine_visual_cues order2 cs)"
  using assms by (simp add: combine_length combine_all)

theorem cue_aggregation_up_to_order_witness:
  "length (combine_visual_cues hash_order_a
             [[''Detected 1 face(s)'', ''Face 1: No obvious artifacts''],
              [''Detected 1 face(s)'', ''Face 1: No obvious artifacts'']])
   = length (combine_visual_cues hash_order_b
             [[''Detected 1 face(s)'', ''Face 1: No obvious artifacts''],
              [''Detected 1 face(s)'', ''Face 1: No obvious artifacts'']])
   \<and> set (combine_visual_cues hash_order_a
             [[''Detected 1 face(s)'', ''Face 1: No obvious artifacts''],
              [''Detected 1 face(s)'', ''Face 1: No obvious artifacts'']])
   = set (combine_visual_cues hash_order_b
             [[''Detected 1 face(s)'', ''Face 1: No obvious artifacts''],
              [''Detected 1 face(s)'', ''Face 1: No obvious artifacts'']])"
proof -
  let ?cs = "[[''Detected 1 face(s)'', ''Face 1: No obvious artifacts''],
              [''Detected 1 face(s)'', ''Face 1: No obvious artifacts'']]"
  have "card (set (concat ?cs)) \<le> length (concat ?cs)" by (rule card_length)
  also have "length (concat ?cs) = 4" by simp
  finally have "card (set (concat ?cs)) \<le> 5" by simp
  with cue_aggregation_up_to_order[OF set_enumeration_a set_enumeration_b, of ?cs]
  show ?thesis by blast
qed


text \<open>
  The claim C5 as stated fails: the same two-frame video, analysed under two iteration
  orders of the set, gives two different cue lists.
\<close>

theorem cue_aggregation_order_counterexample:
  "set_enumeration (list_of_set sample_env)
   \<and> set_enumeration (list_of_set reversed_order_env)
   \<and> visual_cues (video_model_analyze_video sample_env ''clip.mp4'')
       = [''Detected 1 face(s)'', ''Face 1: No obvious artifacts'']
   \<and> visual_cues (video_model_analyze_video reversed_order_env ''clip.mp4'')
       = [''Face 1: No obvious artifacts'', ''Detected 1 face(s)'']"
proof -
  have a: "visual_cues (video_model_analyze_video sample_env ''clip.mp4'')
       = [''Detected 1 face(s)'', ''Face 1: No obvious artifacts'']"
    unfolding video_cues_two_frames[of sample_env, OF sample_video_facts(1-4)]
      sample_cues_any_path sample_video_facts(5)
    by (simp add: combine_visual_cues_def hash_order_a_def)
  have b: "visual_cues (video_model_analyze_video reversed_order_env ''clip.mp4'')
       = [''Face 1: No obvious artifacts'', ''Detected 1 face(s)'']"
    unfolding video_cues_two_frames[of reversed_order_env, OF reversed_video_facts(1-4)]
      reversed_cues_any_path reversed_video_facts(5)
    by (simp add: combine_visual_cues_def hash_order_b_def)
  show ?thesis
    using a b by (simp add: sample_video_facts(5) reversed_video_facts(5)
        set_enumeration_a set_enumeration_b)
qed

text \<open>
  C6, as amended. The aggregated cue list has no duplicates, holds only per-frame cues and
  has \<open>min 5 n\<close> entries for \<open>n\<close> distinct per-frame cues; each distinct cue appears
  exactly once when there are at most five of them.
\<close>

theorem cue_aggregation_bounded_distinct:
  assumes "set_enumeration order"
  shows "distinct (combine_visual_cues order cs)
    \<and> set (combine_visual_cues order cs) \<subseteq> set (concat cs)
    \<and> length (combine_visual_cues order cs) = min 5 (card (set (concat cs)))
    \<and> length (combine_visual_cues order cs) \<le> 5
    \<and> (card (set (concat cs)) \<le> 5 \<longrightarrow>
         (\<forall>c \<in> set (concat cs). count_list (combine_visual_cues order cs) c = 1))"
proof -
  have "count_list (combine_visual_cues order cs) c = 1"
    if "card (set (concat cs)) \<le> 5" "c \<in> set (concat cs)" for c
  proof -
    from that assms have "c \<in> set (combine_visual_cues order cs)"
      by (simp add: combine_all)
    with combine_distinct[OF assms, of cs] show ?thesis
      by (simp add: count_list_distinct)
  qed
  moreover have "length (combine_visual_cues order cs) \<le> 5"
    by (simp add: combine_visual_cues_def)
  ultimately show ?thesis
    using combine_distinct[OF assms, of cs] combine_subset[OF assms, of cs]
      combine_length[OF assms, of cs]
    by blast
qed


theorem cue_aggregation_bounded_distinct_witness:
  "distinct (combine_visual_cues hash_order_a
       [[''Detected 1 face(s)'', ''Face 1: No obvious artifacts''],
        [''Detected 1 face(s)'', ''Face 1: No obvious artifacts'']])
   \<and> length (combine_visual_cues hash_order_a
       [[''Detected 1 face(s)'', ''Face 1: No obvious artifacts''],
        [''Detected 1 face(s)'', ''Face 1: No obvious artifacts'']]) \<le> 5
   \<and> count_list (combine_visual_cues hash_order_a
       [[''Detected 1 face(s)'', ''Face 1: No obvious artifacts''],
        [''Detected 1 face(s)'', ''Face 1: No obvious artifacts'']]) ''Detected 1 face(s)'' = 1
   \<and> count_list (combine_visual_cues hash_order_a
       [[''Detected 1 face(s)'', ''Face 1: No obvious artifacts''],
        [''Detected 1 face(s)'', ''Face 1: No obvious artifacts'']]) ''Face 1: No obvious artifacts'' = 1"
proof -
  let ?cs = "[[''Detected 1 face(s)'', ''Face 1: No obvious artifacts''],
              [''Detected 1 face(s)'', ''Face 1: No obvious artifacts'']]"
  have "card (set (concat ?cs)) \<le> length (concat ?cs)" by (rule card_length)
  also have "length (concat ?cs) = 4" by simp
  finally have c: "card (set (concat ?cs)) \<le> 5" by simp
  have m: "''Detected 1 face(s)'' \<in> set (concat ?cs)" "''Face 1: No obvious artifacts'' \<in> set (concat ?cs)"
    by simp_all
  from cue_aggregation_bounded_distinct[OF set_enumeration_a, of ?cs] c m
  show ?thesis by blast
qed

text \<open>
  The claim C6 as stated fails: a frame with five faces yields six distinct cues, the
  aggregated list keeps five of them, and under no iteration order can it hold all six.
\<close>

theorem cue_aggregation_drops_sixth_cue_counterexample:
  "visual_cues (huggingface_analysis crowd_env (frame_path 0))
     = [''Detected 5 face(s)'', ''Face 1: No obvious artifacts'', ''Face 2: No obvious artifacts'',
        ''Face 3: No obvious artifacts'', ''Face 4: No obvious artifacts'',
        ''Face 5: No obvious artifacts'']
   \<and> visual_cues (video_model_analyze_video crowd_env ''clip.mp4'')
     = [''Detected 5 face(s)'', ''Face 1: No obvious artifacts'', ''Face 2: No obvious artifacts'',
        ''Face 3: No obvious artifacts'', ''Face 4: No obvious artifacts'']
   \<and> count_list (visual_cues (video_model_analyze_video crowd_env ''clip.mp4''))
        ''Face 5: No obvious artifacts'' = 0
   \<and> \<not> (\<exists>order. set_enumeration order
          \<and> (\<forall>c \<in> set (extract_visual_cues crowd_env (frame_path 0)).
                count_list (combine_visual_cues order
                  [extract_visual_cues crowd_env (frame_path 0),
                   extract_visual_cues crowd_env (frame_path 1)]) c = 1))"
proof -
  have a: "visual_cues (huggingface_analysis crowd_env (frame_path 0)) = extract_visual_cues crowd_env (frame_path 0)"
    by (rule huggingface_cues) (rule crowd_video_facts(4))
  have b: "visual_cues (video_model_analyze_video crowd_env ''clip.mp4'')
     = [''Detected 5 face(s)'', ''Face 1: No obvious artifacts'', ''Face 2: No obvious artifacts'',
        ''Face 3: No obvious artifacts'', ''Face 4: No obvious artifacts'']"
    unfolding video_cues_two_frames[of crowd_env, OF crowd_video_facts(1-4)]
      crowd_cues_any_path crowd_video_facts(5)
    by (simp add: combine_visual_cues_def hash_order_a_def)
  let ?cues = "extract_visual_cues crowd_env (frame_path 0)"
  have six: "distinct ?cues" "length ?cues = 6"
    unfolding crowd_cues_any_path by simp_all
  have c: "\<not> (\<exists>order. set_enumeration order
          \<and> (\<forall>c \<in> set ?cues.
                count_list (combine_visual_cues order
                  [?cues, extract_visual_cues crowd_env (frame_path 1)]) c = 1))"
  proof
    assume "\<exists>order. set_enumeration order
          \<and> (\<forall>c \<in> set ?cues.
                count_list (combine_visual_cues order
                  [?cues, extract_visual_cues crowd_env (frame_path 1)]) c = 1)"
    then obtain order where o: "set_enumeration order"
      and all: "\<forall>c \<in> set ?cues.
                count_list (combine_visual_cues order
                  [?cues, extract_visual_cues crowd_env (frame_path 1)]) c = 1"
      by blast
    let ?out = "combine_visual_cues order [?cues, extract_visual_cues crowd_env (frame_path 1)]"
    have "set ?cues \<subseteq> set ?out"
    proof
      fix x assume "x \<in> set ?cues"
      with all have "count_list ?out x \<noteq> 0" by simp
      then show "x \<in> set ?out" by (simp add: count_list_0_iff)
    qed
    then have "card (set ?cues) \<le> card (set ?out)"
      by (intro card_mono) simp_all
    also have "card (set ?out) \<le> length ?out" by (rule card_length)
    also have "length ?out \<le> 5" by (simp add: combine_visual_cues_def)
    finally show False using six by (simp add: distinct_card)
  qed
  show ?thesis
    using c unfolding a b crowd_cues_any_path by simp
qed

subsection \<open>The cosine transform of a constant\<close>

lemma sum_list_telescope:
  fixes f g :: "nat \<Rightarrow> real"
  assumes "\<And>i. a * f i = g (Suc i) - g i"
  shows "a * (\<Sum>i\<leftarrow>[0..<n]. f i) = g n - g 0"
proof (induction n)
  case 0
  then show ?case by simp
next
  case (Suc n)
  have "a * (\<Sum>i\<leftarrow>[0..<Suc n]. f i) = a * (\<Sum>i\<leftarrow>[0..<n]. f i) + a * f n"
    by (simp add: distrib_left)
  also have "\<dots> = (g n - g 0) + (g (Suc n) - g n)"
    by (simp only: Suc.IH assms)
  finally show ?case by simp
qed

lemma cos_step:
  "2 * sin (t / 2) * cos (real (2 * i + 1) * t / 2) = sin (real (Suc i) * t) - sin (real i * t)"
proof -
  have e1: "(real (Suc i) * t - real i * t) / 2 = t / 2"
    by (simp add: algebra_simps)
  have e2: "(real (Suc i) * t + real i * t) / 2 = real (2 * i + 1) * t / 2"
    by (simp add: algebra_simps)
  show ?thesis
    unfolding sin_diff_sin[of "real (Suc i) * t" "real i * t"] e1 e2 ..
qed

lemma cos_sum_zero:
  assumes "0 < u" "u < M"
  shows "(\<Sum>i\<leftarrow>[0..<M]. cos (pi * real (2 * i + 1) * real u / real (2 * M))) = 0"
proof -
  define t where "t = pi * real u / real M"
  define S where "S = (\<Sum>i\<leftarrow>[0..<M]. cos (real (2 * i + 1) * t / 2))"
  have M: "0 < real M" using assms by simp
  have eq: "pi * real (2 * i + 1) * real u / real (2 * M) = real (2 * i + 1) * t / 2" for i
    using M by (simp add: t_def field_simps)
  have "real M * t = real u * pi" using M by (simp add: t_def)
  then have s0: "sin (real M * t) = 0" by simp
  have tpos: "0 < t" using assms M by (simp add: t_def)
  have "real u / real M < 1" using assms by simp
  then have "pi * (real u / real M) < pi * 1"
    by (intro mult_strict_left_mono) simp_all
  then have "t < pi" by (simp add: t_def)
  with tpos have "0 < t / 2" "t / 2 < pi" by simp_all
  then have ne: "sin (t / 2) \<noteq> 0" using sin_gt_zero[of "t / 2"] by simp
  have "(2 * sin (t / 2)) * S = sin (real M * t) - sin (real 0 * t)"
    unfolding S_def by (rule sum_list_telescope) (rule cos_step)
  with s0 have "(2 * sin (t / 2)) * S = 0" by simp
  with ne have "S = 0" by simp
  then show ?thesis unfolding eq S_def .
qed

subsection \<open>Uniform pictures on the fallback path\<close>

lemma flatten_uniform: "uniform a c \<Longrightarrow> \<forall>x \<in> set (flatten a). x = c"
  by (auto simp: flatten_def uniform_def)

lemma uniform_map: "uniform a c \<Longrightarrow> uniform (map_ndarray f a) (f c)"
  by (simp add: uniform_def map_ndarray_def)

lemma np_mean_replicate: "0 < n \<Longrightarrow> np_mean (replicate n c) = c"
  by (simp add: np_mean_def sum_list_replicate)

lemma np_var_const:
  assumes "\<forall>x \<in> set xs. x = c"
  shows "np_var xs = 0"
proof (cases "xs = []")
  case True
  then show ?thesis by (simp add: np_var_def np_mean_def)
next
  case False
  define n where "n = length xs"
  have n: "0 < n" using False by (simp add: n_def)
  have xs: "xs = replicate n c"
    using assms unfolding n_def by (simp add: replicate_length_same)
  have "np_var (replicate n c) = np_mean (replicate n ((c - c)\<^sup>2))"
    unfolding np_var_def by (simp add: np_mean_replicate[OF n])
  then have "np_var (replicate n c) = 0" by (simp add: np_mean_replicate[OF n])
  with xs show ?thesis by simp
qed

lemma np_std_const: "\<forall>x \<in> set xs. x = c \<Longrightarrow> np_std xs = 0"
  by (simp add: np_std_def np_var_const)

lemma np_sum_abs_zero: "uniform a 0 \<Longrightarrow> np_sum_abs a = 0"
proof -
  assume "uniform a 0"
  then have "\<forall>x \<in> set (flatten a). x = 0" by (rule flatten_uniform)
  then have "map abs (flatten a) = replicate (length (flatten a)) 0"
    by (simp add: map_replicate_const[symmetric] cong: map_cong)
  then show ?thesis by (simp add: np_sum_abs_def sum_list_replicate)
qed

lemma dct_coeff_sum_zero:
  assumes "0 < u" "u < M"
  shows "(\<Sum>i\<leftarrow>[0..<M]. dct_coeff M u i) = 0"
proof -
  have "(\<Sum>i\<leftarrow>[0..<M]. dct_coeff M u i)
      = sqrt (2 / real M) * (\<Sum>i\<leftarrow>[0..<M]. cos (pi * real (2 * i + 1) * real u / real (2 * M)))"
    using assms(1) unfolding dct_coeff_def by (simp add: sum_list_const_mult)
  then show ?thesis by (simp only: cos_sum_zero[OF assms] mult_zero_right)
qed

lemma sum_list_upt_cong:
  "(\<And>i. i < n \<Longrightarrow> f i = g i) \<Longrightarrow> (\<Sum>i\<leftarrow>[0..<n]. f i) = (\<Sum>i\<leftarrow>[0..<n]. (g i :: real))"
  by (rule arg_cong[where f = sum_list]) (simp cong: map_cong)

lemma dct2_uniform_zero:
  assumes "uniform X c" and "0 < u" and "u < nrows X"
  shows "entry (dct2 X) u v = 0"
proof -
  define K where "K = (\<Sum>j\<leftarrow>[0..<ncols X]. c * dct_coeff (ncols X) v j)"
  have inner: "(\<Sum>j\<leftarrow>[0..<ncols X]. dct_coeff (nrows X) u i * entry X i j * dct_coeff (ncols X) v j)
      = dct_coeff (nrows X) u i * K" if "i < nrows X" for i
  proof -
    have "(\<Sum>j\<leftarrow>[0..<ncols X]. dct_coeff (nrows X) u i * entry X i j * dct_coeff (ncols X) v j)
        = (\<Sum>j\<leftarrow>[0..<ncols X]. dct_coeff (nrows X) u i * (c * dct_coeff (ncols X) v j))"
      using assms(1) that by (intro sum_list_upt_cong) (simp add: uniform_def)
    also have "\<dots> = dct_coeff (nrows X) u i * K"
      unfolding K_def by (rule sum_list_const_mult)
    finally show ?thesis .
  qed
  have "entry (dct2 X) u v = (\<Sum>i\<leftarrow>[0..<nrows X]. dct_coeff (nrows X) u i * K)"
    unfolding dct2_def by (simp only: ndarray.simps) (rule sum_list_upt_cong, rule inner)
  also have "\<dots> = (\<Sum>i\<leftarrow>[0..<nrows X]. dct_coeff (nrows X) u i) * K"
    by (rule sum_list_mult_const)
  also have "\<dots> = 0"
    by (simp only: dct_coeff_sum_zero[OF assms(2,3)] mult_zero_left)
  finally show ?thesis .
qed

lemma high_freq_zero:
  assumes "uniform X c"
  shows "np_sum_abs (slice2 (dct2 X) 8 (nrows (dct2 X)) 8 (ncols (dct2 X))) = 0"
proof (rule np_sum_abs_zero)
  have r: "nrows (dct2 X) = nrows X" "ncols (dct2 X) = ncols X"
    by (simp_all add: dct2_def)
  show "uniform (slice2 (dct2 X) 8 (nrows (dct2 X)) 8 (ncols (dct2 X))) 0"
    unfolding uniform_def
  proof (intro allI impI)
    fix i j
    assume "i < nrows (slice2 (dct2 X) 8 (nrows (dct2 X)) 8 (ncols (dct2 X)))"
    then have "8 + i < nrows X" by (simp add: slice2_def r)
    then have "entry (dct2 X) (8 + i) (8 + j) = 0"
      by (intro dct2_uniform_zero[OF assms]) simp_all
    then show "entry (slice2 (dct2 X) 8 (nrows (dct2 X)) 8 (ncols (dct2 X))) i j = 0"
      by (simp add: slice2_def)
  qed
qed

lemma detect_compression_artifacts_uniform:
  assumes "uniform g c" "0 < nrows g" "0 < ncols g"
  shows "detect_compression_artifacts g = Inr 0"
proof -
  have u: "uniform (as_real g) (real (unat c))"
    unfolding as_real_def using assms(1) by (rule uniform_map)
  have sz: "nrows (as_real g) = nrows g" "ncols (as_real g) = ncols g"
    by (simp_all add: as_real_def map_ndarray_def)
  have d: "cv_dct (as_real g) = Inr (dct2 (as_real g))"
    using assms(2,3) by (simp add: cv_dct_def array_size_def sz)
  show ?thesis
    unfolding detect_compression_artifacts_def d bindE_def
    by (simp add: Let_def high_freq_zero[OF u])
qed

lemma sum_list_const_on:
  "\<forall>x \<in> set xs. f x = (c :: nat) \<Longrightarrow> (\<Sum>x\<leftarrow>xs. f x) = length xs * c"
  by (induction xs) simp_all

lemma reflect101_in_range:
  "0 < n \<Longrightarrow> - 1 \<le> i \<Longrightarrow> i \<le> int n \<Longrightarrow> reflect101 n i < n"
  by (auto simp: reflect101_def)

lemma filter2D_box3_uniform:
  assumes "uniform g v"
  shows "uniform (filter2D_box3 g) v"
  unfolding uniform_def
proof (intro allI impI)
  fix i j
  assume "i < nrows (filter2D_box3 g)" and "j < ncols (filter2D_box3 g)"
  then have i: "i < nrows g" and j: "j < ncols g"
    by (simp_all add: filter2D_box3_def)
  have px: "entry g (reflect101 (nrows g) (int i + di)) (reflect101 (ncols g) (int j + dj)) = v"
    if "di \<in> {-1, 0, 1}" "dj \<in> {-1, 0, 1}" for di dj
  proof -
    have "reflect101 (nrows g) (int i + di) < nrows g"
      using i that(1) by (intro reflect101_in_range) auto
    moreover have "reflect101 (ncols g) (int j + dj) < ncols g"
      using j that(2) by (intro reflect101_in_range) auto
    ultimately show ?thesis using assms by (simp add: uniform_def)
  qed
  have inner: "(\<Sum>dj\<leftarrow>[-1, 0, 1].
        unat (entry g (reflect101 (nrows g) (int i + di)) (reflect101 (ncols g) (int j + dj))))
      = 3 * unat v" if "di \<in> {-1, 0, 1}" for di
  proof -
    have "(\<Sum>dj\<leftarrow>[-1, 0, 1].
        unat (entry g (reflect101 (nrows g) (int i + di)) (reflect101 (ncols g) (int j + dj))))
      = length [-1, 0, 1 :: int] * unat v"
    proof (rule sum_list_const_on, rule ballI)
      fix dj :: int
      assume "dj \<in> set [-1, 0, 1]"
      then have "dj \<in> {-1, 0, 1}" by simp
      with that show "unat (entry g (reflect101 (nrows g) (int i + di))
          (reflect101 (ncols g) (int j + dj))) = unat v"
        by (simp only: px)
    qed
    then show ?thesis by simp
  qed
  have outer: "(\<Sum>di\<leftarrow>[-1, 0, 1]. \<Sum>dj\<leftarrow>[-1, 0, 1].
        unat (entry g (reflect101 (nrows g) (int i + di)) (reflect101 (ncols g) (int j + dj))))
      = 9 * unat v"
  proof -
    have "(\<Sum>di\<leftarrow>[-1, 0, 1]. \<Sum>dj\<leftarrow>[-1, 0, 1].
        unat (entry g (reflect101 (nrows g) (int i + di)) (reflect101 (ncols g) (int j + dj))))
      = length [-1, 0, 1 :: int] * (3 * unat v)"
    proof (rule sum_list_const_on, rule ballI)
      fix di :: int
      assume "di \<in> set [-1, 0, 1]"
      then have "di \<in> {-1, 0, 1}" by simp
      then show "(\<Sum>dj\<leftarrow>[-1, 0, 1].
        unat (entry g (reflect101 (nrows g) (int i + di)) (reflect101 (ncols g) (int j + dj))))
        = 3 * unat v"
        by (rule inner)
    qed
    then show ?thesis by simp
  qed
  have "unat v < 256" using unsigned_less[of v] by simp
  then have "(2 * (9 * unat v) + 9) div 18 = unat v" by simp
  then show "entry (filter2D_box3 g) i j = v"
    unfolding filter2D_box3_def by (simp only: ndarray.simps outer Let_def) simp
qed

lemma absdiff_uniform:
  "uniform a v \<Longrightarrow> uniform b v \<Longrightarrow> nrows b = nrows a \<Longrightarrow> ncols b = ncols a \<Longrightarrow>
   uniform (absdiff a b) 0"
  by (simp add: uniform_def absdiff_def)

lemma analyze_noise_patterns_uniform:
  assumes "uniform g v"
  shows "analyze_noise_patterns g = 0"
proof -
  have "uniform (absdiff g (filter2D_box3 g)) 0"
    using assms filter2D_box3_uniform[OF assms]
    by (rule absdiff_uniform) (simp_all add: filter2D_box3_def)
  then have "uniform (as_real (absdiff g (filter2D_box3 g))) (real (unat (0 :: 8 word)))"
    unfolding as_real_def by (rule uniform_map)
  then have "np_var (flatten (as_real (absdiff g (filter2D_box3 g)))) = 0"
    by (intro np_var_const flatten_uniform)
  then show ?thesis by (simp add: analyze_noise_patterns_def Let_def)
qed

lemma analyze_color_consistency_uniform:
  assumes "uniform hsv c"
  shows "analyze_color_consistency hsv = 1"
proof -
  obtain h s v where c: "c = (h, s, v)" by (cases c) auto
  have "uniform (map_ndarray (\<lambda>(h, s, v). s) hsv) ((\<lambda>(h, s, v). s) c)"
    using assms by (rule uniform_map)
  then have "uniform (as_real (map_ndarray (\<lambda>(h, s, v). s) hsv)) (real (unat ((\<lambda>(h, s, v). s) c)))"
    unfolding as_real_def by (rule uniform_map)
  then have s: "np_std (flatten (as_real (map_ndarray (\<lambda>(h, s, v). s) hsv))) = 0"
    by (intro np_std_const flatten_uniform)
  have "uniform (map_ndarray (\<lambda>(h, s, v). v) hsv) ((\<lambda>(h, s, v). v) c)"
    using assms by (rule uniform_map)
  then have "uniform (as_real (map_ndarray (\<lambda>(h, s, v). v) hsv)) (real (unat ((\<lambda>(h, s, v). v) c)))"
    unfolding as_real_def by (rule uniform_map)
  then have v: "np_std (flatten (as_real (map_ndarray (\<lambda>(h, s, v). v) hsv))) = 0"
    by (intro np_std_const flatten_uniform)
  show ?thesis by (simp add: analyze_color_consistency_def Let_def s v)
qed

lemma fallback_cues_quiet: "fallback_cues 0 0 1 = [''No obvious artifacts detected'']"
  by (simp add: fallback_cues_def)

lemma fallback_analysis_uniform:
  assumes "imread env p = Some img" and "uniform img c"
    and "0 < nrows img" "0 < ncols img"
  shows "fallback_analysis env p =
     \<lparr>is_fake = False, confidence = 0.2, fake_probability = 0, real_probability = 1,
      visual_cues = [''No obvious artifacts detected''],
      model_used = ''Traditional CV Analysis''\<rparr>"
proof -
  let ?gray = "map_ndarray (bgr2gray env) img"
  let ?hsv = "map_ndarray (bgr2hsv env) img"
  have sz: "array_size img \<noteq> 0" using assms(3,4) by (simp add: array_size_def)
  have g: "cvtColor (bgr2gray env) img = Inr ?gray" and h: "cvtColor (bgr2hsv env) img = Inr ?hsv"
    using sz by (simp_all add: cvtColor_def)
  have ug: "uniform ?gray (bgr2gray env c)" and uh: "uniform ?hsv (bgr2hsv env c)"
    using assms(2) by (rule uniform_map)+
  have a: "detect_compression_artifacts ?gray = Inr 0"
    using ug assms(3,4) by (intro detect_compression_artifacts_uniform) (simp_all add: map_ndarray_def)
  have n: "analyze_noise_patterns ?gray = 0"
    using ug by (rule analyze_noise_patterns_uniform)
  have cc: "analyze_color_consistency ?hsv = 1"
    using uh by (rule analyze_color_consistency_uniform)
  have "fallback_analysis_body env p =
     Inr \<lparr>is_fake = False, confidence = 0.2, fake_probability = 0, real_probability = 1,
      visual_cues = [''No obvious artifacts detected''],
      model_used = ''Traditional CV Analysis''\<rparr>"
    unfolding fallback_analysis_body_def assms(1) option.case g h bindE_def sum.case a n cc
    by (simp add: Let_def fallback_cues_quiet)
  then show ?thesis by (simp add: fallback_analysis_def)
qed



subsection \<open>The public operations\<close>

lemma error_result_ok:
  "\<exists>r. error_result env ft p fid fname fsize e = Inr r
     \<and> ar_model_used r = ''Error'' \<and> ar_confidence r = 0 \<and> \<not> ar_is_fake r
     \<and> lookup r ''error'' = Some (PyStr (str_of_error e))
     \<and> lookup r ''fake_probability'' = None \<and> lookup r ''real_probability'' = None"
  by (cases fsize; cases "path_exists env p")
     (simp_all add: error_result_def bindE_def getsize_def lookup_def)

lemma analyze_image_total: "\<exists>r. analyze_image env p fid fname fsize = Inr r"
  using error_result_ok[of env "''image''" p fid fname fsize]
  by (cases "analyze_image_body env p fid fname fsize") (auto simp: analyze_image_def)

lemma analyze_video_total: "\<exists>r. analyze_video env p fid fname fsize = Inr r"
  using error_result_ok[of env "''video''" p fid fname fsize]
  by (cases "analyze_video_body env p fid fname fsize") (auto simp: analyze_video_def)

lemma analyze_audio_total: "\<exists>r. analyze_audio env p fid fname fsize = Inr r"
  using error_result_ok[of env "''audio''" p fid fname fsize]
  by (cases "analyze_audio_body env p fid fname fsize") (auto simp: analyze_audio_def)

text \<open>
  C1. Each public operation returns an \<^verbatim>\<open>AnalysisResult\<close> for every environment, path and
  optional argument: no exception leaves it. When its \<^verbatim>\<open>try\<close> block raises \<open>e\<close>, the result
  is tagged \<^verbatim>\<open>model_used="Error"\<close>, has confidence 0 and keeps \<^verbatim>\<open>str(e)\<close> under the
  metadata key \<^verbatim>\<open>error\<close>.
\<close>

theorem public_operations_never_raise:
  "(\<exists>r. analyze_image env p fid fname fsize = Inr r)
   \<and> (\<exists>r. analyze_video env p fid fname fsize = Inr r)
   \<and> (\<exists>r. analyze_audio env p fid fname fsize = Inr r)
   \<and> (analyze_image_body env p fid fname fsize = Inl e \<longrightarrow>
        (\<exists>r. analyze_image env p fid fname fsize = Inr r
           \<and> ar_model_used r = ''Error'' \<and> ar_confidence r = 0 \<and> \<not> ar_is_fake r
           \<and> lookup r ''error'' = Some (PyStr (str_of_error e))))
   \<and> (analyze_video_body env p fid fname fsize = Inl e \<longrightarrow>
        (\<exists>r. analyze_video env p fid fname fsize = Inr r
           \<and> ar_model_used r = ''Error'' \<and> ar_confidence r = 0 \<and> \<not> ar_is_fake r
           \<and> lookup r ''error'' = Some (PyStr (str_of_error e))))
   \<and> (analyze_audio_body env p fid fname fsize = Inl e \<longrightarrow>
        (\<exists>r. analyze_audio env p fid fname fsize = Inr r
           \<and> ar_model_used r = ''Error'' \<and> ar_confidence r = 0 \<and> \<not> ar_is_fake r
           \<and> lookup r ''error'' = Some (PyStr (str_of_error e))))"
proof (intro conjI impI)
  assume "analyze_image_body env p fid fname fsize = Inl e"
  then show "\<exists>r. analyze_image env p fid fname fsize = Inr r
           \<and> ar_model_used r = ''Error'' \<and> ar_confidence r = 0 \<and> \<not> ar_is_fake r
           \<and> lookup r ''error'' = Some (PyStr (str_of_error e))"
    using error_result_ok[of env "''image''" p fid fname fsize e]
    by (auto simp: analyze_image_def)
next
  assume "analyze_video_body env p fid fname fsize = Inl e"
  then show "\<exists>r. analyze_video env p fid fname fsize = Inr r
           \<and> ar_model_used r = ''Error'' \<and> ar_confidence r = 0 \<and> \<not> ar_is_fake r
           \<and> lookup r ''error'' = Some (PyStr (str_of_error e))"
    using error_result_ok[of env "''video''" p fid fname fsize e]
    by (auto simp: analyze_video_def)
next
  assume "analyze_audio_body env p fid fname fsize = Inl e"
  then show "\<exists>r. analyze_audio env p fid fname fsize = Inr r
           \<and> ar_model_used r = ''Error'' \<and> ar_confidence r = 0 \<and> \<not> ar_is_fake r
           \<and> lookup r ''error'' = Some (PyStr (str_of_error e))"
    using error_result_ok[of env "''audio''" p fid fname fsize e]
    by (auto simp: analyze_audio_def)
qed (rule analyze_image_total analyze_video_total analyze_audio_total)+

lemma sample_missing: "\<not> path_exists sample_env ''uploads/missing.jpg''"
  by (simp add: sample_env_def)

theorem public_operations_never_raise_witness:
  "(\<exists>r. analyze_image sample_env ''uploads/missing.jpg'' None None None = Inr r
       \<and> ar_model_used r = ''Error'' \<and> ar_confidence r = 0 \<and> \<not> ar_is_fake r
       \<and> lookup r ''error'' = Some (PyStr ''Image file not found: uploads/missing.jpg''))
   \<and> (\<exists>r. analyze_video sample_env ''uploads/missing.jpg'' None None None = Inr r
       \<and> ar_model_used r = ''Error'' \<and> ar_confidence r = 0 \<and> \<not> ar_is_fake r
       \<and> lookup r ''error'' = Some (PyStr ''Video file not found: uploads/missing.jpg''))
   \<and> (\<exists>r. analyze_audio sample_env ''uploads/missing.jpg'' None None None = Inr r
       \<and> ar_model_used r = ''Error'' \<and> ar_confidence r = 0 \<and> \<not> ar_is_fake r
       \<and> lookup r ''error'' = Some (PyStr ''Audio file not found: uploads/missing.jpg''))"
proof -
  have i: "analyze_image_body sample_env ''uploads/missing.jpg'' None None None
      = Inl (FileNotFoundError ''Image file not found: uploads/missing.jpg'')"
    by (simp add: analyze_image_body_def sample_missing)
  have v: "analyze_video_body sample_env ''uploads/missing.jpg'' None None None
      = Inl (FileNotFoundError ''Video file not found: uploads/missing.jpg'')"
    by (simp add: analyze_video_body_def sample_missing)
  have a: "analyze_audio_body sample_env ''uploads/missing.jpg'' None None None
      = Inl (FileNotFoundError ''Audio file not found: uploads/missing.jpg'')"
    by (simp add: analyze_audio_body_def sample_missing)
  show ?thesis
    using public_operations_never_raise[of sample_env "''uploads/missing.jpg''" None None None
        "FileNotFoundError ''Image file not found: uploads/missing.jpg''"]
      public_operations_never_raise[of sample_env "''uploads/missing.jpg''" None None None
        "FileNotFoundError ''Video file not found: uploads/missing.jpg''"]
      public_operations_never_raise[of sample_env "''uploads/missing.jpg''" None None None
        "FileNotFoundError ''Audio file not found: uploads/missing.jpg''"]
      i v a
    by simp
qed

subsection \<open>Face cues and the two image paths\<close>

lemma fallback_cues_subset:
  "set (fallback_cues a n c) \<subseteq>
     {''Compression artifacts detected'', ''Inconsistent noise patterns'',
      ''Color inconsistencies detected'', ''No obvious artifacts detected''}"
  by (auto simp: fallback_cues_def Let_def split: if_splits)

lemma fallback_body_cues:
  "fallback_analysis_body env p = Inr r \<Longrightarrow> \<exists>a n c. visual_cues r = fallback_cues a n c"
  apply (auto simp: fallback_analysis_body_def bindE_def Let_def split: option.splits sum.splits if_splits)
  by blast

lemma extract_visual_cues_no_raise:
  assumes "load_image_file env p = Inr img" and "face_locations env img = Inr locs"
    and "\<forall>loc \<in> set locs. \<exists>b. check_face_artifacts env (face_region img loc) = Inr b"
  shows "extract_visual_cues env p =
     (if locs = [] then [''No faces detected'']
      else (''Detected '' @ str_of_nat (length locs) @ '' face(s)'')
           # map (\<lambda>(j, loc). face_cue env img (Suc j) loc) (enumerate 0 locs))"
  unfolding extract_visual_cues_def assms(1,2) sum.case analyze_faces_no_raise[OF assms(3)]
  by simp

lemma fallback_analysis_cues:
  "set (visual_cues (fallback_analysis env p)) \<subseteq>
     {''Compression artifacts detected'', ''Inconsistent noise patterns'',
      ''Color inconsistencies detected'', ''No obvious artifacts detected'',
      ''Analysis failed''}"
proof (cases "fallback_analysis_body env p")
  case (Inl e)
  then have "visual_cues (fallback_analysis env p) = [''Analysis failed'']"
    by (simp add: fallback_analysis_def error_fallback_def)
  then show ?thesis
    by (simp only: list.set) (intro subset_insertI2 subset_refl)
next
  case (Inr r)
  then obtain a n c where "visual_cues r = fallback_cues a n c"
    using fallback_body_cues by blast
  with Inr have e: "visual_cues (fallback_analysis env p) = fallback_cues a n c"
    by (simp add: fallback_analysis_def)
  have s2: "{''Compression artifacts detected'', ''Inconsistent noise patterns'',
      ''Color inconsistencies detected'', ''No obvious artifacts detected''}
    \<subseteq> {''Compression artifacts detected'', ''Inconsistent noise patterns'',
      ''Color inconsistencies detected'', ''No obvious artifacts detected'',
      ''Analysis failed''}"
    by (intro insert_mono empty_subsetI)
  show ?thesis
    unfolding e by (rule subset_trans[OF fallback_cues_subset s2])
qed

text \<open>
  C4, as amended. Face cues are produced on the classifier-backed path only: when the
  classifier answers and face analysis does not raise, the cue list is "No faces detected"
  for zero faces and otherwise "Detected n face(s)" followed by one cue per face in
  detection order; without a classifier, or when it raises, the image model returns the
  fallback path's result, whose cues are drawn from its own five strings.
\<close>

theorem face_cues_on_classifier_path:
  "(model_loaded env \<and> predict_top10 env p = Inr probs
      \<and> load_image_file env p = Inr img \<and> face_locations env img = Inr locs
      \<and> (\<forall>loc \<in> set locs. \<exists>b. check_face_artifacts env (face_region img loc) = Inr b)
    \<longrightarrow> visual_cues (image_model_analyze_image env p) =
         (if locs = [] then [''No faces detected'']
          else (''Detected '' @ str_of_nat (length locs) @ '' face(s)'')
               # map (\<lambda>(j, loc). face_cue env img (Suc j) loc) (enumerate 0 locs)))
   \<and> (\<not> model_loaded env \<or> predict_top10 env p = Inl e
    \<longrightarrow> image_model_analyze_image env p = fallback_analysis env p)
   \<and> set (visual_cues (fallback_analysis env p)) \<subseteq>
       {''Compression artifacts detected'', ''Inconsistent noise patterns'',
        ''Color inconsistencies detected'', ''No obvious artifacts detected'',
        ''Analysis failed''}"
proof (intro conjI impI)
  assume a: "model_loaded env \<and> predict_top10 env p = Inr probs
      \<and> load_image_file env p = Inr img \<and> face_locations env img = Inr locs
      \<and> (\<forall>loc \<in> set locs. \<exists>b. check_face_artifacts env (face_region img loc) = Inr b)"
  then have "visual_cues (image_model_analyze_image env p) = extract_visual_cues env p"
    by (simp add: image_model_analyze_image_def huggingface_cues)
  also have "\<dots> = (if locs = [] then [''No faces detected'']
          else (''Detected '' @ str_of_nat (length locs) @ '' face(s)'')
               # map (\<lambda>(j, loc). face_cue env img (Suc j) loc) (enumerate 0 locs))"
    using a by (intro extract_visual_cues_no_raise) simp_all
  finally show "visual_cues (image_model_analyze_image env p) =
         (if locs = [] then [''No faces detected'']
          else (''Detected '' @ str_of_nat (length locs) @ '' face(s)'')
               # map (\<lambda>(j, loc). face_cue env img (Suc j) loc) (enumerate 0 locs))" .
next
  assume "\<not> model_loaded env \<or> predict_top10 env p = Inl e"
  then show "image_model_analyze_image env p = fallback_analysis env p"
    by (auto simp: image_model_analyze_image_def huggingface_analysis_def)
next
  show "set (visual_cues (fallback_analysis env p)) \<subseteq>
       {''Compression artifacts detected'', ''Inconsistent noise patterns'',
        ''Color inconsistencies detected'', ''No obvious artifacts detected'',
        ''Analysis failed''}"
    by (rule fallback_analysis_cues)
qed


lemma no_classifier_facts:
  "\<not> model_loaded no_classifier_env"
  "imread no_classifier_env p = Some gray_2x2"
  "load_image_file no_classifier_env p = Inr gray_2x2"
  "face_locations no_classifier_env img = Inr [(0, 2, 2, 0)]"
  by (simp_all add: no_classifier_env_def sample_env_def)

lemma gray_2x2_uniform: "uniform gray_2x2 (128, 128, 128)"
  by (simp add: uniform_def gray_2x2_def)

text \<open>
  The claim C4 as stated fails on the fallback path: with no classifier loaded and one face
  in the picture, the cue list is "No obvious artifacts detected" alone.
\<close>

theorem fallback_path_has_no_face_cues_counterexample:
  "\<not> model_loaded no_classifier_env
   \<and> load_image_file no_classifier_env ''photo.jpg'' = Inr gray_2x2
   \<and> face_locations no_classifier_env gray_2x2 = Inr [(0, 2, 2, 0)]
   \<and> visual_cues (image_model_analyze_image no_classifier_env ''photo.jpg'')
       = [''No obvious artifacts detected'']"
proof -
  have "fallback_analysis no_classifier_env ''photo.jpg'' =
     \<lparr>is_fake = False, confidence = 0.2, fake_probability = 0, real_probability = 1,
      visual_cues = [''No obvious artifacts detected''],
      model_used = ''Traditional CV Analysis''\<rparr>"
    by (rule fallback_analysis_uniform[OF no_classifier_facts(2) gray_2x2_uniform])
       (simp_all add: gray_2x2_def)
  then show ?thesis
    by (simp add: image_model_analyze_image_def no_classifier_facts)
qed

theorem face_cues_on_classifier_path_witness:
  "visual_cues (image_model_analyze_image sample_env ''photo.jpg'')
     = [''Detected 1 face(s)'', ''Face 1: No obvious artifacts'']
   \<and> image_model_analyze_image no_classifier_env ''photo.jpg''
     = fallback_analysis no_classifier_env ''photo.jpg''"
proof -
  have c: "check_face_artifacts sample_env (face_region gray_2x2 (0, 2, 2, 0)) = Inr False"
    unfolding face_region_def prod.case
    by (rule sample_check) (simp add: array_size_def slice2_def gray_2x2_def)
  have pre: "model_loaded sample_env
      \<and> predict_top10 sample_env ''photo.jpg''
          = Inr [0.91, 0.01, 0.01, 0.01, 0.01, 0.01, 0.01, 0.01, 0.01, 0.01]
      \<and> load_image_file sample_env ''photo.jpg'' = Inr gray_2x2
      \<and> face_locations sample_env gray_2x2 = Inr [(0, 2, 2, 0)]
      \<and> (\<forall>loc \<in> set [(0, 2, 2, 0)].
            \<exists>b. check_face_artifacts sample_env (face_region gray_2x2 loc) = Inr b)"
  proof (intro conjI)
    show "\<forall>loc \<in> set [(0, 2, 2, 0)].
            \<exists>b. check_face_artifacts sample_env (face_region gray_2x2 loc) = Inr b"
      using c by (auto intro: exI[of _ False])
  qed (simp_all add: sample_env_def)
  have cue: "face_cue sample_env gray_2x2 (Suc 0) (0, 2, 2, 0) = ''Face 1: No obvious artifacts''"
    using c by (simp add: face_cue_def str_of_nat_digits)
  have "visual_cues (image_model_analyze_image sample_env ''photo.jpg'')
     = [''Detected 1 face(s)'', ''Face 1: No obvious artifacts'']"
    using face_cues_on_classifier_path[of sample_env "''photo.jpg''"
        "[0.91, 0.01, 0.01, 0.01, 0.01, 0.01, 0.01, 0.01, 0.01, 0.01]" gray_2x2 "[(0, 2, 2, 0)]"] pre
    by (simp add: cue str_of_nat_digits)
  moreover have "image_model_analyze_image no_classifier_env ''photo.jpg''
     = fallback_analysis no_classifier_env ''photo.jpg''"
    using face_cues_on_classifier_path[of no_classifier_env "''photo.jpg''"] no_classifier_facts(1)
    by blast
  ultimately show ?thesis by simp
qed

subsection \<open>Uniform pictures\<close>



subsection \<open>Score ranges\<close>

lemma np_sum_abs_nonneg: "0 \<le> np_sum_abs a"
  unfolding np_sum_abs_def by (rule sum_list_nonneg) auto

lemma detect_compression_artifacts_range:
  assumes "detect_compression_artifacts g = Inr a"
  shows "0 \<le> a \<and> a \<le> 1"
proof -
  from assms obtain d where
    a: "a = min (np_sum_abs (slice2 d 8 (nrows d) 8 (ncols d)) / (np_sum_abs d + 1 / 10 ^ 6)) 1"
    by (auto simp: detect_compression_artifacts_def bindE_def Let_def split: sum.splits)
  have "0 \<le> np_sum_abs (slice2 d 8 (nrows d) 8 (ncols d)) / (np_sum_abs d + 1 / 10 ^ 6)"
    using np_sum_abs_nonneg[of d] np_sum_abs_nonneg[of "slice2 d 8 (nrows d) 8 (ncols d)"]
    by (intro divide_nonneg_nonneg) simp_all
  then show ?thesis unfolding a by simp
qed

lemma analyze_noise_patterns_range:
  "0 \<le> analyze_noise_patterns g \<and> analyze_noise_patterns g \<le> 1"
  using np_var_nonneg by (simp add: analyze_noise_patterns_def Let_def)

lemma analyze_color_consistency_range:
  "0 < analyze_color_consistency hsv \<and> analyze_color_consistency hsv \<le> 1"
proof -
  have "0 < 1 + np_std xs / 50 + np_std ys / 50" for xs ys
    using np_std_nonneg[of xs] np_std_nonneg[of ys] by (simp add: add_pos_nonneg)
  then show ?thesis
    by (simp add: analyze_color_consistency_def Let_def)
qed

lemma fallback_scores_invariant:
  assumes "0 \<le> a \<and> a \<le> 1" "0 \<le> n \<and> n \<le> 1" "0 < c \<and> c \<le> (1::real)"
    and "m \<noteq> ''Error''"
  shows "dict_ok
     \<lparr>is_fake = (a + n + (1 - c)) / 3 > 0.5,
      confidence = min ((a + n + (1 - c)) / 3 * 0.8 + 0.2) 0.95,
      fake_probability = (a + n + (1 - c)) / 3,
      real_probability = 1 - (a + n + (1 - c)) / 3,
      visual_cues = cs, model_used = m\<rparr>"
proof -
  define f where "f = (a + n + (1 - c)) / 3"
  have f: "0 \<le> f" "f \<le> 1" using assms(1-3) by (simp_all add: f_def)
  then have "0 \<le> min (f * 0.8 + 0.2) 0.95" "min (f * 0.8 + 0.2) 0.95 \<le> 1"
    by (simp_all add: min_def)
  with f assms(4) show ?thesis
    unfolding f_def[symmetric] by (simp add: dict_ok_def dict_invariant_def)
qed

lemma fallback_body_ok:
  assumes "fallback_analysis_body env p = Inr r"
  shows "dict_ok r"
proof -
  from assms obtain img where img: "imread env p = Some img"
    by (auto simp: fallback_analysis_body_def split: option.splits)
  from assms img obtain gray where gray: "cvtColor (bgr2gray env) img = Inr gray"
    by (auto simp: fallback_analysis_body_def bindE_def split: sum.splits)
  from assms img gray obtain hsv where hsv: "cvtColor (bgr2hsv env) img = Inr hsv"
    by (auto simp: fallback_analysis_body_def bindE_def split: sum.splits)
  from assms img gray hsv obtain a where a: "detect_compression_artifacts gray = Inr a"
    by (auto simp: fallback_analysis_body_def bindE_def split: sum.splits)
  have r: "r = \<lparr>is_fake = (a + analyze_noise_patterns gray + (1 - analyze_color_consistency hsv)) / 3 > 0.5,
      confidence = min ((a + analyze_noise_patterns gray + (1 - analyze_color_consistency hsv)) / 3 * 0.8 + 0.2) 0.95,
      fake_probability = (a + analyze_noise_patterns gray + (1 - analyze_color_consistency hsv)) / 3,
      real_probability = 1 - (a + analyze_noise_patterns gray + (1 - analyze_color_consistency hsv)) / 3,
      visual_cues = fallback_cues a (analyze_noise_patterns gray) (analyze_color_consistency hsv),
      model_used = ''Traditional CV Analysis''\<rparr>"
    using assms unfolding fallback_analysis_body_def img option.case gray hsv a bindE_def sum.case Let_def
    by simp
  show ?thesis
    unfolding r
    by (rule fallback_scores_invariant[OF detect_compression_artifacts_range[OF a]
          analyze_noise_patterns_range analyze_color_consistency_range]) simp
qed

lemma error_fallback_ok: "dict_ok error_fallback"
  by (simp add: dict_ok_def dict_invariant_def error_fallback_def)

lemma fallback_analysis_ok: "dict_ok (fallback_analysis env p)"
  by (cases "fallback_analysis_body env p")
     (simp_all add: fallback_analysis_def error_fallback_ok fallback_body_ok)

lemma calculate_fake_score_range:
  "0.1 \<le> calculate_fake_score_from_predictions ps \<and> calculate_fake_score_from_predictions ps \<le> 0.9"
proof -
  have "0.1 \<le> min (max x 0.1) 0.9 \<and> min (max x 0.1) 0.9 \<le> 0.9" for x :: real
    by (simp add: min_def max_def)
  then show ?thesis
    unfolding calculate_fake_score_from_predictions_def Let_def by blast
qed

lemma classifier_scores_invariant:
  assumes "0.1 \<le> f \<and> f \<le> (0.9 :: real)" and "m \<noteq> ''Error''"
  shows "dict_ok \<lparr>is_fake = f > 0.5, confidence = min (f * 0.7 + 0.3) 0.9,
      fake_probability = f, real_probability = 1 - f, visual_cues = cs, model_used = m\<rparr>"
  using assms by (simp add: dict_ok_def dict_invariant_def min_def)

lemma huggingface_analysis_ok: "dict_ok (huggingface_analysis env p)"
proof (cases "predict_top10 env p")
  case (Inl e)
  then show ?thesis by (simp add: huggingface_analysis_def fallback_analysis_ok)
next
  case (Inr ps)
  have "huggingface_analysis env p =
     \<lparr>is_fake = calculate_fake_score_from_predictions ps > 0.5,
      confidence = min (calculate_fake_score_from_predictions ps * 0.7 + 0.3) 0.9,
      fake_probability = calculate_fake_score_from_predictions ps,
      real_probability = 1 - calculate_fake_score_from_predictions ps,
      visual_cues = extract_visual_cues env p,
      model_used = ''Hugging Face ResNet-50 + CV Analysis''\<rparr>"
    unfolding huggingface_analysis_def Inr sum.case Let_def ..
  then show ?thesis
    by (simp only:) (rule classifier_scores_invariant[OF calculate_fake_score_range], simp)
qed

lemma image_model_ok: "dict_ok (image_model_analyze_image env p)"
  by (simp add: image_model_analyze_image_def huggingface_analysis_ok fallback_analysis_ok)

lemma sum_list_range:
  "\<forall>x \<in> set xs. 0 \<le> x \<and> x \<le> (1 :: real) \<Longrightarrow> 0 \<le> sum_list xs \<and> sum_list xs \<le> real (length xs)"
  by (induction xs) auto

lemma np_mean_range:
  assumes "xs \<noteq> []" and "\<forall>x \<in> set xs. 0 \<le> x \<and> x \<le> 1"
  shows "0 \<le> np_mean xs \<and> np_mean xs \<le> 1"
proof -
  have n: "0 < real (length xs)" using assms(1) by simp
  from sum_list_range[OF assms(2)] n show ?thesis
    unfolding np_mean_def by (simp add: divide_le_eq)
qed

lemma temporal_consistency_range:
  "0 < analyze_temporal_consistency fs \<and> analyze_temporal_consistency fs \<le> 1"
proof -
  have "0 < 1 + np_var fs * 10" using np_var_nonneg[of fs] by linarith
  then have "0 < 1 / (1 + np_var fs * 10)" by simp
  then show ?thesis
    by (simp add: analyze_temporal_consistency_def Let_def)
qed

lemma analyze_frames_ok:
  "analyze_frames env frames acc = Inr rs \<Longrightarrow> \<forall>r \<in> set acc. dict_ok r \<Longrightarrow>
   (\<forall>r \<in> set rs. dict_ok r) \<and> length rs = length acc + length frames"
proof (induction frames arbitrary: acc)
  case Nil
  then show ?case by simp
next
  case (Cons f frames)
  let ?r = "if model_loaded env then huggingface_analysis env f else fallback_analysis env f"
  have ok: "dict_ok ?r" by (simp add: huggingface_analysis_ok fallback_analysis_ok)
  from Cons.prems(1) have run: "analyze_frames env frames (acc @ [?r]) = Inr rs"
    by (cases "model_loaded env") (simp_all add: Let_def split: option.splits)
  have "\<forall>r \<in> set (acc @ [?r]). dict_ok r" using Cons.prems(2) ok by auto
  from Cons.IH[OF run this] show ?case by simp
qed

lemma video_scores_invariant:
  assumes "rs \<noteq> []" and "\<forall>r \<in> set rs. dict_ok (r :: result)" and "m \<noteq> ''Error''"
  shows "dict_ok
     \<lparr>is_fake = np_mean (map fake_probability rs) > 0.5,
      confidence = np_mean (map confidence rs)
                   * (0.7 + 0.3 * analyze_temporal_consistency (map fake_probability rs)),
      fake_probability = np_mean (map fake_probability rs),
      real_probability = 1 - np_mean (map fake_probability rs),
      visual_cues = cs, model_used = m, frames_analyzed = k, temporal_consistency = t\<rparr>"
proof -
  define f where "f = np_mean (map fake_probability rs)"
  define c where "c = np_mean (map confidence rs)"
  define t where "t = analyze_temporal_consistency (map fake_probability rs)"
  have f: "0 \<le> f \<and> f \<le> 1"
    unfolding f_def using assms(1,2)
    by (intro np_mean_range) (auto simp: dict_ok_def dict_invariant_def)
  have c: "0 \<le> c \<and> c \<le> 1"
    unfolding c_def using assms(1,2)
    by (intro np_mean_range) (auto simp: dict_ok_def dict_invariant_def)
  have t: "0 < t \<and> t \<le> 1" unfolding t_def by (rule temporal_consistency_range)
  then have w: "0 \<le> 0.7 + 0.3 * t" "0.7 + 0.3 * t \<le> 1" by simp_all
  have "0 \<le> c * (0.7 + 0.3 * t)" using c w by simp
  moreover have "c * (0.7 + 0.3 * t) \<le> 1 * 1"
    using c w by (intro mult_mono) simp_all
  ultimately show ?thesis
    using f assms(3) unfolding f_def[symmetric] c_def[symmetric] t_def[symmetric]
    by (simp add: dict_ok_def dict_invariant_def)
qed

lemma fallback_video_ok: "dict_ok fallback_video_analysis"
  by (simp add: dict_ok_def dict_invariant_def fallback_video_analysis_def)

lemma video_body_ok:
  assumes "video_model_analyze_video_body env p = Inr r"
  shows "dict_ok r"
proof (cases "extract_frames (video_capture_of env p) 1 = []")
  case True
  with assms show ?thesis
    by (simp add: video_model_analyze_video_body_def fallback_video_ok)
next
  case False
  with assms obtain rs where rs: "analyze_frames env (extract_frames (video_capture_of env p) 1) [] = Inr rs"
    by (auto simp: video_model_analyze_video_body_def bindE_def Let_def split: sum.splits)
  from analyze_frames_ok[OF rs] False have ok: "\<forall>r \<in> set rs. dict_ok r" and ne: "rs \<noteq> []"
    by auto
  have "r = \<lparr>is_fake = np_mean (map fake_probability rs) > 0.5,
      confidence = np_mean (map confidence rs)
                   * (0.7 + 0.3 * analyze_temporal_consistency (map fake_probability rs)),
      fake_probability = np_mean (map fake_probability rs),
      real_probability = 1 - np_mean (map fake_probability rs),
      visual_cues = combine_visual_cues (list_of_set env) (map visual_cues rs),
      model_used = ''Temporal CV Analysis'',
      frames_analyzed = length (extract_frames (video_capture_of env p) 1),
      temporal_consistency = analyze_temporal_consistency (map fake_probability rs)\<rparr>"
    using assms False unfolding video_model_analyze_video_body_def Let_def rs bindE_def sum.case
    by simp
  then show ?thesis
    by (simp only:) (rule video_scores_invariant[OF ne ok], simp)
qed

lemma video_model_ok: "dict_ok (video_model_analyze_video env p)"
  by (cases "video_model_analyze_video_body env p")
     (simp_all add: video_model_analyze_video_def fallback_video_ok video_body_ok)

lemma np_mean_nonneg: "\<forall>x \<in> set xs. 0 \<le> x \<Longrightarrow> 0 \<le> np_mean xs"
  unfolding np_mean_def by (intro divide_nonneg_nonneg sum_list_nonneg) auto

lemma detect_audio_artifacts_range:
  "0 \<le> detect_audio_artifacts rows \<and> detect_audio_artifacts rows \<le> 1"
proof -
  have "0 \<le> np_mean (map np_var rows)"
    by (rule np_mean_nonneg) (simp add: np_var_nonneg)
  then show ?thesis by (simp add: detect_audio_artifacts_def Let_def)
qed

lemma analyze_spectral_features_range:
  "0 \<le> analyze_spectral_features c r \<and> analyze_spectral_features c r \<le> 1"
  using np_std_nonneg[of c] np_std_nonneg[of r]
  by (simp add: analyze_spectral_features_def Let_def)

lemma analyze_phase_consistency_range:
  "analyze_phase_consistency env audio = Inr ph \<Longrightarrow> 0 \<le> ph \<and> ph \<le> 1"
  by (auto simp: analyze_phase_consistency_def bindE_def Let_def split: sum.splits)

lemma audio_scores_invariant:
  assumes "0 \<le> a \<and> a \<le> 1" "0 \<le> s \<and> s \<le> 1" "0 \<le> ph \<and> ph \<le> (1::real)"
    and "m \<noteq> ''Error''"
  shows "dict_ok
     \<lparr>is_fake = (a + s + ph) / 3 > 0.5,
      confidence = min ((a + s + ph) / 3 * 0.8 + 0.2) 0.95,
      fake_probability = (a + s + ph) / 3,
      real_probability = 1 - (a + s + ph) / 3,
      visual_cues = cs, model_used = m, duration = d, sample_rate = sr\<rparr>"
proof -
  define f where "f = (a + s + ph) / 3"
  have f: "0 \<le> f" "f \<le> 1" using assms(1-3) by (simp_all add: f_def)
  then have "0 \<le> min (f * 0.8 + 0.2) 0.95" "min (f * 0.8 + 0.2) 0.95 \<le> 1"
    by (simp_all add: min_def)
  with f assms(4) show ?thesis
    unfolding f_def[symmetric] by (simp add: dict_ok_def dict_invariant_def)
qed

lemma fallback_audio_ok: "dict_ok fallback_audio_analysis"
  by (simp add: dict_ok_def dict_invariant_def fallback_audio_analysis_def)

lemma audio_body_ok:
  assumes "audio_model_analyze_audio_body env p = Inr r"
  shows "dict_ok r"
proof -
  from assms obtain audio where au: "librosa_load env p = Inr audio"
    by (auto simp: audio_model_analyze_audio_body_def bindE_def split: sum.splits)
  from assms au obtain rows where rows: "mfcc env audio = Inr rows"
    by (auto simp: audio_model_analyze_audio_body_def bindE_def split: sum.splits)
  from assms au rows obtain c where c: "spectral_centroid env audio = Inr c"
    by (auto simp: audio_model_analyze_audio_body_def bindE_def split: sum.splits)
  from assms au rows c obtain ro where ro: "spectral_rolloff env audio = Inr ro"
    by (auto simp: audio_model_analyze_audio_body_def bindE_def split: sum.splits)
  from assms au rows c ro obtain ph where ph: "analyze_phase_consistency env audio = Inr ph"
    by (auto simp: audio_model_analyze_audio_body_def bindE_def Let_def split: sum.splits)
  have "r = \<lparr>is_fake = (detect_audio_artifacts rows + analyze_spectral_features c ro + ph) / 3 > 0.5,
      confidence = min ((detect_audio_artifacts rows + analyze_spectral_features c ro + ph) / 3 * 0.8 + 0.2) 0.95,
      fake_probability = (detect_audio_artifacts rows + analyze_spectral_features c ro + ph) / 3,
      real_probability = 1 - (detect_audio_artifacts rows + analyze_spectral_features c ro + ph) / 3,
      visual_cues = audio_cues (detect_audio_artifacts rows) (analyze_spectral_features c ro) ph,
      model_used = ''Audio Spectral Analysis'',
      duration = real (length audio) / 16000, sample_rate = 16000\<rparr>"
    using assms
    unfolding audio_model_analyze_audio_body_def au rows c ro ph bindE_def sum.case Let_def
    by simp
  then show ?thesis
    by (simp only:)
       (rule audio_scores_invariant[OF detect_audio_artifacts_range
           analyze_spectral_features_range analyze_phase_consistency_range[OF ph]], simp)
qed

lemma audio_model_ok: "dict_ok (audio_model_analyze_audio env p)"
  by (cases "audio_model_analyze_audio_body env p")
     (simp_all add: audio_model_analyze_audio_def fallback_audio_ok audio_body_ok)

lemma build_result_invariant:
  assumes "dict_ok res" and "build_result env ft p fid fname fsize res extra = Inr out"
  shows "score_invariant out \<and> ar_model_used out \<noteq> ''Error''"
proof -
  from assms(2) have
    "ar_is_fake out = is_fake res" "ar_confidence out = confidence res"
    "ar_model_used out = model_used res"
    "lookup out ''fake_probability'' = Some (PyFloat (fake_probability res))"
    "lookup out ''real_probability'' = Some (PyFloat (real_probability res))"
    by (auto simp: build_result_def bindE_def lookup_def split: sum.splits option.splits)
  with assms(1) show ?thesis
    by (simp add: score_invariant_def dict_ok_def dict_invariant_def)
qed

lemma error_result_fields:
  assumes "error_result env ft p fid fname fsize e = Inr out"
  shows "ar_model_used out = ''Error'' \<and> \<not> ar_is_fake out \<and> ar_confidence out = 0
     \<and> lookup out ''fake_probability'' = None \<and> lookup out ''real_probability'' = None"
  using assms
  by (auto simp: error_result_def bindE_def lookup_def split: sum.splits option.splits if_splits)

lemma analyze_image_outcome:
  "analyze_image env p fid fname fsize = Inr out \<Longrightarrow> outcome_ok out"
  unfolding analyze_image_def
  by (cases "analyze_image_body env p fid fname fsize")
     (auto simp: outcome_ok_def analyze_image_body_def Let_def image_model_ok
        dest: error_result_fields build_result_invariant[OF image_model_ok] split: if_splits)

lemma analyze_video_outcome:
  "analyze_video env p fid fname fsize = Inr out \<Longrightarrow> outcome_ok out"
  unfolding analyze_video_def
  by (cases "analyze_video_body env p fid fname fsize")
     (auto simp: outcome_ok_def analyze_video_body_def Let_def
        dest: error_result_fields build_result_invariant[OF video_model_ok] split: if_splits)

lemma analyze_audio_outcome:
  "analyze_audio env p fid fname fsize = Inr out \<Longrightarrow> outcome_ok out"
  unfolding analyze_audio_def
  by (cases "analyze_audio_body env p fid fname fsize")
     (auto simp: outcome_ok_def analyze_audio_body_def Let_def
        dest: error_result_fields build_result_invariant[OF audio_model_ok] split: if_splits)

text \<open>
  C2, as amended. Every outcome of the three public operations that is not tagged "Error"
  carries both probabilities, they lie in [0,1] and sum to one, the confidence lies in
  [0,1] and the verdict is \<open>fake_probability > 0.5\<close> (scores read as real numbers; for
  audio, a clip on which no reduction runs over an empty array). An outcome tagged "Error"
  has verdict false, confidence 0 and no probabilities in its metadata.
\<close>

theorem scores_of_non_error_outcomes:
  assumes "analyze_image env p fid fname fsize = Inr out
     \<or> analyze_video env p fid fname fsize = Inr out
     \<or> (analyze_audio env p fid fname fsize = Inr out \<and> audio_scores_defined env p)"
  shows "(ar_model_used out \<noteq> ''Error'' \<longrightarrow> score_invariant out)
     \<and> (ar_model_used out = ''Error'' \<longrightarrow>
          \<not> ar_is_fake out \<and> ar_confidence out = 0
          \<and> lookup out ''fake_probability'' = None \<and> lookup out ''real_probability'' = None)"
proof -
  from assms have "outcome_ok out"
    using analyze_image_outcome analyze_video_outcome analyze_audio_outcome by blast
  then show ?thesis by (simp add: outcome_ok_def split: if_splits)
qed

lemma sample_record_prediction: "record_prediction sample_env a b c = Inr ()"
  by (simp add: record_prediction_def sample_env_def Let_def)

lemma sample_paths:
  "path_exists sample_env ''photo.jpg''" "path_exists sample_env ''clip.mp4''"
  "path_exists sample_env ''voice.wav''"
  by (simp_all add: sample_env_def)

lemma sample_audio_defined: "audio_scores_defined sample_env ''voice.wav''"
  by (simp add: audio_scores_defined_def sample_env_def)

text \<open>
  The claim C2 as stated fails on the error outcome: for a path at which no file exists the
  metadata holds the error message only, and neither probability.
\<close>

theorem missing_file_outcome_counterexample:
  "analyze_image sample_env ''uploads/missing.jpg'' None None None = Inr missing_file_result
   \<and> lookup missing_file_result ''fake_probability'' = None
   \<and> lookup missing_file_result ''real_probability'' = None
   \<and> \<not> score_invariant missing_file_result"
proof -
  have b: "analyze_image_body sample_env ''uploads/missing.jpg'' None None None
      = Inl (FileNotFoundError ''Image file not found: uploads/missing.jpg'')"
    by (simp add: analyze_image_body_def sample_env_def)
  have u: "uuid4 sample_env = ''00000000-0000-4000-8000-000000000000''"
    "\<not> path_exists sample_env ''uploads/missing.jpg''"
    by (simp_all add: sample_env_def)
  have n: "basename ''uploads/missing.jpg'' = ''missing.jpg''"
    by (simp add: basename_def)
  have "analyze_image sample_env ''uploads/missing.jpg'' None None None = Inr missing_file_result"
    unfolding analyze_image_def b sum.case
    by (simp add: error_result_def bindE_def u n missing_file_result_def)
  moreover have "lookup missing_file_result ''fake_probability'' = None"
    "lookup missing_file_result ''real_probability'' = None"
    by (simp_all add: lookup_def missing_file_result_def)
  ultimately show ?thesis by (simp add: score_invariant_def)
qed

theorem scores_of_non_error_outcomes_witness:
  "(\<exists>out. analyze_image sample_env ''photo.jpg'' None None None = Inr out
        \<and> ar_model_used out \<noteq> ''Error'' \<and> score_invariant out)
   \<and> (\<exists>out. analyze_video sample_env ''clip.mp4'' None None None = Inr out
        \<and> ar_model_used out \<noteq> ''Error'' \<and> score_invariant out)
   \<and> (\<exists>out. analyze_audio sample_env ''voice.wav'' None None None = Inr out
        \<and> ar_model_used out \<noteq> ''Error'' \<and> score_invariant out)
   \<and> (\<exists>out. analyze_image sample_env ''uploads/missing.jpg'' None None None = Inr out
        \<and> ar_model_used out = ''Error'' \<and> lookup out ''fake_probability'' = None)"
proof (intro conjI)
  let ?ri = "image_model_analyze_image sample_env ''photo.jpg''"
  from build_result_ok[OF sample_paths(1) sample_record_prediction, of "''image''" None None None ?ri
      "[(''faces_detected'', PyInt (int (length (extract_faces sample_env ''photo.jpg'')))),
        (''face_data'', PyList (extract_faces sample_env ''photo.jpg''))]"]
  obtain out where o: "build_result sample_env ''image'' ''photo.jpg'' None None None ?ri
      [(''faces_detected'', PyInt (int (length (extract_faces sample_env ''photo.jpg'')))),
       (''face_data'', PyList (extract_faces sample_env ''photo.jpg''))] = Inr out"
    and m: "ar_model_used out = model_used ?ri"
    by blast
  have a: "analyze_image sample_env ''photo.jpg'' None None None = Inr out"
    using o sample_paths(1) by (simp add: analyze_image_def analyze_image_body_def Let_def)
  have "ar_model_used out \<noteq> ''Error''"
    using m image_model_ok[of sample_env "''photo.jpg''"] by (simp add: dict_ok_def)
  with a scores_of_non_error_outcomes[of sample_env "''photo.jpg''" None None None out]
  show "\<exists>out. analyze_image sample_env ''photo.jpg'' None None None = Inr out
        \<and> ar_model_used out \<noteq> ''Error'' \<and> score_invariant out"
    by blast
next
  let ?rv = "video_model_analyze_video sample_env ''clip.mp4''"
  from build_result_ok[OF sample_paths(2) sample_record_prediction, of "''video''" None None None ?rv
      "[(''frames_analyzed'', PyInt (int (frames_analyzed ?rv))),
        (''temporal_consistency'', PyFloat (temporal_consistency ?rv)),
        (''temporal_analysis'', temporal_analysis_of sample_env ''clip.mp4'')]"]
  obtain out where o: "build_result sample_env ''video'' ''clip.mp4'' None None None ?rv
      [(''frames_analyzed'', PyInt (int (frames_analyzed ?rv))),
       (''temporal_consistency'', PyFloat (temporal_consistency ?rv)),
       (''temporal_analysis'', temporal_analysis_of sample_env ''clip.mp4'')] = Inr out"
    and m: "ar_model_used out = model_used ?rv"
    by blast
  have a: "analyze_video sample_env ''clip.mp4'' None None None = Inr out"
    using o sample_paths(2) by (simp add: analyze_video_def analyze_video_body_def Let_def)
  have "ar_model_used out \<noteq> ''Error''"
    using m video_model_ok[of sample_env "''clip.mp4''"] by (simp add: dict_ok_def)
  with a scores_of_non_error_outcomes[of sample_env "''clip.mp4''" None None None out]
  show "\<exists>out. analyze_video sample_env ''clip.mp4'' None None None = Inr out
        \<and> ar_model_used out \<noteq> ''Error'' \<and> score_invariant out"
    by blast
next
  let ?ra = "audio_model_analyze_audio sample_env ''voice.wav''"
  from build_result_ok[OF sample_paths(3) sample_record_prediction, of "''audio''" None None None ?ra
      "[(''duration'', PyFloat (duration ?ra)),
        (''sample_rate'', PyInt (int (sample_rate ?ra))),
        (''spectrogram_features'', extract_spectrogram sample_env ''voice.wav'')]"]
  obtain out where o: "build_result sample_env ''audio'' ''voice.wav'' None None None ?ra
      [(''duration'', PyFloat (duration ?ra)),
       (''sample_rate'', PyInt (int (sample_rate ?ra))),
       (''spectrogram_features'', extract_spectrogram sample_env ''voice.wav'')] = Inr out"
    and m: "ar_model_used out = model_used ?ra"
    by blast
  have a: "analyze_audio sample_env ''voice.wav'' None None None = Inr out"
    using o sample_paths(3) by (simp add: analyze_audio_def analyze_audio_body_def Let_def)
  have "ar_model_used out \<noteq> ''Error''"
    using m audio_model_ok[of sample_env "''voice.wav''"] by (simp add: dict_ok_def)
  with a sample_audio_defined
    scores_of_non_error_outcomes[of sample_env "''voice.wav''" None None None out]
  show "\<exists>out. analyze_audio sample_env ''voice.wav'' None None None = Inr out
        \<and> ar_model_used out \<noteq> ''Error'' \<and> score_invariant out"
    by blast
next
  obtain out where a: "analyze_image sample_env ''uploads/missing.jpg'' None None None = Inr out"
    using analyze_image_total by blast
  have b: "analyze_image_body sample_env ''uploads/missing.jpg'' None None None
      = Inl (FileNotFoundError ''Image file not found: uploads/missing.jpg'')"
    by (simp add: analyze_image_body_def sample_env_def)
  from a have "ar_model_used out = ''Error''"
    unfolding analyze_image_def b sum.case by (auto dest: error_result_fields)
  with a scores_of_non_error_outcomes[of sample_env "''uploads/missing.jpg''" None None None out]
  show "\<exists>out. analyze_image sample_env ''uploads/missing.jpg'' None None None = Inr out
        \<and> ar_model_used out = ''Error'' \<and> lookup out ''fake_probability'' = None"
    by blast
qed

end
